(* ===== verification/Prelude.thy ===== *)
theory Prelude
  imports Complex_Main "HOL-Library.Sublist"
begin

text \<open>
  Shared vocabulary of the development: the types that name the client's data
  (millisecond timestamps, identifiers), a model of the JavaScript string and
  number primitives the components call (\<open>toLowerCase\<close>, \<open>includes\<close>,
  \<open>trim\<close>, \<open>Math.ceil\<close> of a quotient), the outcome of an asynchronous call
  (\<open>Promise.allSettled\<close>), and the generic lemmas on them that the component
  proofs use through the collections declared here.
\<close>

named_theorems js_simps \<open>evaluation rules of the JavaScript primitives\<close>
named_theorems handler_simps \<open>unfolding rules of the components' event handlers\<close>

section \<open>Types of the client's data\<close>

text \<open>
  JavaScript \<open>Date\<close> values are compared through \<open>getTime()\<close>, a count of
  milliseconds; they are modelled as \<open>int\<close>. Identifiers are JSON numbers that
  the code only compares and prints; they are modelled as \<open>nat\<close>.
\<close>

type_synonym timestamp = int
type_synonym ident = nat

abbreviation ms_per_day :: int where
  "ms_per_day \<equiv> 1000 * 60 * 60 * 24"

section \<open>JavaScript string primitives\<close>

text \<open>
  \<open>String.prototype.toLowerCase\<close> on the ASCII range: upper-case letters move
  down by 32, every other character is kept. Characters are bytes in HOL, so
  non-ASCII case mappings are outside the model.
\<close>

definition js_lower_char :: "char \<Rightarrow> char" where
  "js_lower_char c =
     (let n = (of_char c :: nat) in if 65 \<le> n \<and> n \<le> 90 then char_of (n + 32) else c)"

definition js_to_lower :: "string \<Rightarrow> string" where
  "js_to_lower s = map js_lower_char s"

text \<open>
  \<open>String.prototype.includes\<close>, as the code calls it, \<open>hay.includes(needle)\<close>:
  an executable scan that tries every start position.
\<close>

fun js_starts_with :: "string \<Rightarrow> string \<Rightarrow> bool" where
  "js_starts_with hay [] = True"
| "js_starts_with [] (n # ns) = False"
| "js_starts_with (h # hs) (n # ns) = (h = n \<and> js_starts_with hs ns)"

fun js_includes :: "string \<Rightarrow> string \<Rightarrow> bool" where
  "js_includes [] needle = (needle = [])"
| "js_includes (h # hs) needle = (js_starts_with (h # hs) needle \<or> js_includes hs needle)"

text \<open>
  \<open>String.prototype.trim\<close> removes leading and trailing white space; the model
  knows the ASCII white-space characters (space, tab, line feed, vertical tab, form
  feed, carriage return).
\<close>

definition js_space :: "char \<Rightarrow> bool" where
  "js_space c \<longleftrightarrow> (let n = (of_char c :: nat) in n = 32 \<or> (9 \<le> n \<and> n \<le> 13))"

definition js_trim :: "string \<Rightarrow> string" where
  "js_trim s = rev (dropWhile js_space (rev (dropWhile js_space s)))"

declare js_lower_char_def [js_simps] js_to_lower_def [js_simps] js_space_def [js_simps]
  js_trim_def [js_simps]

section \<open>Numbers\<close>

text \<open>
  \<open>Math.ceil(a / b)\<close> for integers \<open>a\<close> and a positive \<open>b\<close>, computed in the
  integers: HOL's \<open>div\<close> rounds towards minus infinity, so negating twice rounds up.
\<close>

definition ceil_div :: "int \<Rightarrow> int \<Rightarrow> int" where
  "ceil_div a b = - ((- a) div b)"

text \<open>
  \<open>Number.prototype.toString()\<close> on a non-negative integer, and the matching
  parse of a decimal digit string (what the backend does with a query parameter).
\<close>

fun show_nat :: "nat \<Rightarrow> string" where
  "show_nat n =
     (if n < 10 then [char_of (48 + n)] else show_nat (n div 10) @ [char_of (48 + n mod 10)])"

definition digit_val :: "char \<Rightarrow> nat option" where
  "digit_val c = (let n = (of_char c :: nat) in if 48 \<le> n \<and> n \<le> 57 then Some (n - 48) else None)"

fun parse_digits :: "nat \<Rightarrow> string \<Rightarrow> nat option" where
  "parse_digits acc [] = Some acc"
| "parse_digits acc (c # cs) =
     (case digit_val c of None \<Rightarrow> None | Some d \<Rightarrow> parse_digits (10 * acc + d) cs)"

definition parse_nat :: "string \<Rightarrow> nat option" where
  "parse_nat s = (if s = [] then None else parse_digits 0 s)"

section \<open>Badges\<close>

text \<open>The \<open>variant\<close> prop of the UI library's \<open>Badge\<close>, as the components choose it.\<close>

datatype badge_variant = Default | Secondary | Destructive | Outline

section \<open>Settled promises\<close>

text \<open>
  The result of one awaited call as \<open>Promise.allSettled\<close> reports it: fulfilled
  with the response data, or rejected with the error's message.
\<close>

datatype 'a settled = Fulfilled 'a | Rejected string

fun settled_or :: "'a settled \<Rightarrow> 'a \<Rightarrow> 'a" where
  "settled_or (Fulfilled v) d = v"
| "settled_or (Rejected e) d = d"

fun is_rejected :: "'a settled \<Rightarrow> bool" where
  "is_rejected (Fulfilled v) = False"
| "is_rejected (Rejected e) = True"

section \<open>Generic lemmas\<close>

subsection \<open>Substring search\<close>

lemma js_starts_with_prefix [simp]: "js_starts_with hay needle \<longleftrightarrow> prefix needle hay"
  by (induction hay needle rule: js_starts_with.induct) auto

text \<open>The executable scan agrees with the library's contiguous-sublist relation.\<close>

lemma js_includes_sublist [simp]: "js_includes hay needle \<longleftrightarrow> sublist needle hay"
proof (induction hay)
  case Nil
  then show ?case by auto
next
  case (Cons h hs)
  then show ?case by (simp add: sublist_Cons_right)
qed

lemma js_includes_Nil [simp]: "js_includes hay []"
  by simp

lemma js_includes_self [simp]: "js_includes s s"
  by simp

lemma js_to_lower_Nil [simp]: "js_to_lower [] = []"
  by (simp add: js_to_lower_def)

lemma length_js_to_lower [simp]: "length (js_to_lower s) = length s"
  by (simp add: js_to_lower_def)

lemma js_to_lower_append [simp]: "js_to_lower (xs @ ys) = js_to_lower xs @ js_to_lower ys"
  by (simp add: js_to_lower_def)

lemma js_lower_char_idem [simp]: "js_lower_char (js_lower_char c) = js_lower_char c"
proof -
  have "(of_char (char_of (n + 32 :: nat)) :: nat) = n + 32" if "n \<le> 90" for n :: nat
    using that by (simp add: of_char_of)
  then show ?thesis by (auto simp: js_lower_char_def Let_def)
qed

lemma js_to_lower_idem [simp]: "js_to_lower (js_to_lower s) = js_to_lower s"
  by (simp add: js_to_lower_def)

text \<open>Lower-casing neither makes nor removes white space.\<close>

lemma js_space_lower [simp]: "js_space (js_lower_char c) \<longleftrightarrow> js_space c"
proof -
  have "(of_char (char_of (n + 32 :: nat)) :: nat) = n + 32" if "n \<le> 90" for n :: nat
    using that by (simp add: of_char_of)
  then show ?thesis by (auto simp: js_lower_char_def js_space_def Let_def)
qed

text \<open>A string trims to nothing exactly when all its characters are white space.\<close>

lemma js_trim_Nil_iff: "js_trim s = [] \<longleftrightarrow> (\<forall>c \<in> set s. js_space c)"
proof
  assume t: "js_trim s = []"
  show "\<forall>c \<in> set s. js_space c"
  proof (cases "dropWhile js_space s")
    case Nil
    then show ?thesis by (simp add: dropWhile_eq_Nil_conv)
  next
    case (Cons d ds)
    then have "\<not> js_space d" using hd_dropWhile [of js_space s] by simp
    moreover have "dropWhile js_space (rev (dropWhile js_space s)) = []"
      using t by (simp add: js_trim_def)
    then have "\<forall>c \<in> set (rev (dropWhile js_space s)). js_space c"
      by (induction "rev (dropWhile js_space s)") (auto split: if_splits)
    then have "\<forall>c \<in> set (dropWhile js_space s). js_space c" by simp
    ultimately show ?thesis using Cons by simp
  qed
next
  assume "\<forall>c \<in> set s. js_space c"
  then have d: "dropWhile js_space s = []" by (simp only: dropWhile_eq_Nil_conv)
  show "js_trim s = []" unfolding js_trim_def d by simp
qed

lemma js_includes_lower_mono:
  assumes "js_includes hay needle"
  shows "js_includes (js_to_lower hay) (js_to_lower needle)"
proof -
  from assms obtain ps ss where "hay = ps @ needle @ ss"
    by (auto simp: sublist_def)
  then have "js_to_lower hay = js_to_lower ps @ js_to_lower needle @ js_to_lower ss"
    by simp
  then show ?thesis by (simp add: sublist_appendI)
qed

subsection \<open>Ceiling division\<close>

lemma ceil_div_real:
  assumes "0 < b"
  shows "ceil_div a b = \<lceil>real_of_int a / real_of_int b\<rceil>"
proof -
  have "\<lfloor>real_of_int (- a) / real_of_int b\<rfloor> = (- a) div b"
    by (rule floor_divide_of_int_eq)
  then have "\<lceil>real_of_int a / real_of_int b\<rceil> = - ((- a) div b)"
    by (simp add: ceiling_def)
  then show ?thesis by (simp add: ceil_div_def)
qed

lemma ceil_div_pos_iff:
  assumes "0 < b"
  shows "0 < ceil_div a b \<longleftrightarrow> 0 < a"
  using assms by (simp add: ceil_div_def pos_imp_zdiv_neg_iff)

lemma ceil_div_mono:
  assumes "0 < b" and "a \<le> a'"
  shows "ceil_div a b \<le> ceil_div a' b"
  using assms by (simp add: ceil_div_def zdiv_mono1)

lemma ceil_div_mult [simp]:
  assumes "0 < b"
  shows "ceil_div (k * b) b = k"
  using assms unfolding ceil_div_def
  by (metis minus_mult_left nonzero_mult_div_cancel_right less_irrefl minus_minus)

subsection \<open>Printing and parsing numbers\<close>

declare show_nat.simps [simp del]

lemma show_nat_nonempty [simp]: "show_nat n \<noteq> []"
  by (subst show_nat.simps) simp

lemma digit_val_char [simp]: "d < 10 \<Longrightarrow> digit_val (char_of (48 + d)) = Some d"
  by (simp add: digit_val_def of_char_of)

lemma parse_digits_append:
  "parse_digits acc (xs @ ys) =
     (case parse_digits acc xs of None \<Rightarrow> None | Some a \<Rightarrow> parse_digits a ys)"
  by (induction acc xs rule: parse_digits.induct) (auto split: option.splits)

lemma parse_digits_show_nat: "parse_digits acc (show_nat n) = Some (10 ^ length (show_nat n) * acc + n)"
proof (induction n arbitrary: acc rule: show_nat.induct)
  case (1 n)
  show ?case
  proof (cases "n < 10")
    case True
    then show ?thesis by (subst (1 2) show_nat.simps) simp
  next
    case False
    then have "parse_digits acc (show_nat n) =
        parse_digits acc (show_nat (n div 10) @ [char_of (48 + n mod 10)])"
      by (subst show_nat.simps) simp
    also have "\<dots> = Some (10 * (10 ^ length (show_nat (n div 10)) * acc + n div 10) + n mod 10)"
      using "1.IH" False by (simp add: parse_digits_append)
    also have "\<dots> = Some (10 ^ length (show_nat n) * acc + n)"
      using False by (subst (2) show_nat.simps) (simp add: algebra_simps)
    finally show ?thesis .
  qed
qed

text \<open>Printing an identifier and parsing it back gives the identifier.\<close>

lemma parse_show_nat [simp]: "parse_nat (show_nat n) = Some n"
  by (simp add: parse_nat_def parse_digits_show_nat)

lemma show_nat_inj: "show_nat m = show_nat n \<longleftrightarrow> m = n"
  by (metis option.inject parse_show_nat)

subsection \<open>Lists\<close>

lemma find_split_Some: "\<forall>u \<in> set ys. \<not> P u \<Longrightarrow> P t \<Longrightarrow> find P (ys @ t # zs) = Some t"
  by (induction ys) auto

text \<open>Counting by a key: a filter's length is the sum of the counts per key.\<close>

lemma length_filter_sum:
  assumes "finite K" and "\<forall>x \<in> set xs. P x \<longrightarrow> f x \<in> K"
  shows "length (filter P xs) = (\<Sum>k\<in>K. length (filter (\<lambda>x. f x = k \<and> P x) xs))"
  using assms(2)
proof (induction xs)
  case Nil
  then show ?case by simp
next
  case (Cons x xs)
  have "(\<Sum>k\<in>K. length (filter (\<lambda>y. f y = k \<and> P y) (x # xs))) =
        (\<Sum>k\<in>K. (if f x = k \<and> P x then 1 else 0)) + (\<Sum>k\<in>K. length (filter (\<lambda>y. f y = k \<and> P y) xs))"
    by (subst sum.distrib [symmetric]) (rule sum.cong; simp)
  also have "(\<Sum>k\<in>K. (if f x = k \<and> P x then 1 else 0)) = (if P x then 1 else (0::nat))"
    using Cons.prems assms(1) by (auto simp: sum.delta)
  finally show ?case using Cons by simp
qed

subsection \<open>Settled results\<close>

lemma settled_or_cases: "settled_or r d = d \<or> (\<exists>v. r = Fulfilled v \<and> settled_or r d = v)"
  by (cases r) auto

end
