(* ===== verification/Api.thy ===== *)
theory Api
  imports Prelude
begin

text \<open>
  The HTTP client of \<open>src/src/services/api.ts\<close>: the shared axios instance
  \<open>api\<close> with its response interceptor (one retry after a 500, a fixed message when
  the backend is unreachable) and \<open>checkBackendHealth\<close>, which uses a fresh
  instance without interceptors. The server is an oracle: \<open>srv n\<close> is its reply to
  the \<open>n\<close>-th attempt of a request. The request interceptor only logs and is the
  identity on the request, so it does not appear.
\<close>

section \<open>Replies, errors and the interceptor\<close>

text \<open>
  What the transport hands to axios for one attempt: a reply with a status and a
  body, or no reply at all, as an error with axios's \<open>code\<close> (\<open>ECONNREFUSED\<close>,
  \<open>ERR_NETWORK\<close>, \<open>ECONNABORTED\<close> for the 10 s timeout, \<dots>) and its
  \<open>message\<close> (such as \<open>timeout of 10000ms exceeded\<close>).
\<close>

datatype 'a http_reply = Reply int 'a | NoReply string string

text \<open>
  axios's default \<open>validateStatus\<close>: a reply resolves the promise when its status
  is 2xx and rejects it otherwise, the error then carrying \<open>error.response\<close>.
\<close>

definition validate_status :: "int \<Rightarrow> bool" where
  "validate_status st \<longleftrightarrow> 200 \<le> st \<and> st < 300"

text \<open>The rejections a caller of \<open>api\<close> can see.\<close>

datatype api_error =
    BackendUnavailable  \<comment> \<open>the \<open>new Error(...)\<close> of lines 35--39\<close>
  | HttpStatus int      \<comment> \<open>the original error, with \<open>error.response.status\<close>\<close>
  | AxiosError string string  \<comment> \<open>the original error, no response: \<open>error.code\<close>, \<open>error.message\<close>\<close>

fun api_error_message :: "api_error \<Rightarrow> string" where
  "api_error_message BackendUnavailable =
     ''Backend server is not available. Please ensure the Spring Boot application is running on port 8080.''"
| "api_error_message (HttpStatus st) =
     ''Request failed with status code '' @ show_nat (nat st)"
| "api_error_message (AxiosError code msg) = msg"

datatype interceptor_action = Retry | Reject api_error

text \<open>
  The error branch of the response interceptor (lines 30--51), for a failed attempt
  of a request whose \<open>_retry\<close> flag is \<open>retried\<close>. The connection check comes
  first, as in the code; a reply error has no such code.
\<close>

fun on_response_error :: "bool \<Rightarrow> 'a http_reply \<Rightarrow> interceptor_action" where
  "on_response_error retried (NoReply code msg) =
     (if code = ''ECONNREFUSED'' \<or> code = ''ERR_NETWORK'' then Reject BackendUnavailable
      else Reject (AxiosError code msg))"
| "on_response_error retried (Reply st body) =
     (if st = 500 \<and> \<not> retried then Retry else Reject (HttpStatus st))"

lemma on_response_error_Retry: "on_response_error retried r = Retry \<Longrightarrow> \<not> retried"
  by (cases r) (auto split: if_splits)

section \<open>A request through the interceptor\<close>

text \<open>
  One call \<open>api(config)\<close>: attempt \<open>n\<close> is sent; a 2xx reply resolves; a failure
  goes to the interceptor, whose \<open>Retry\<close> sets \<open>_retry\<close> and sends the same request
  again (\<open>return api(originalRequest)\<close>, which passes through the interceptor once
  more). The second component counts the attempts sent. The one-second pause before
  the retry is not observable in the model.
\<close>

function api_dispatch :: "(nat \<Rightarrow> 'a http_reply) \<Rightarrow> nat \<Rightarrow> bool \<Rightarrow> (api_error + 'a) \<times> nat" where
  "api_dispatch srv n retried =
     (case srv n of
        Reply st body \<Rightarrow>
          if validate_status st then (Inr body, Suc n)
          else (case on_response_error retried (Reply st body) of
                  Retry \<Rightarrow> api_dispatch srv (Suc n) True
                | Reject e \<Rightarrow> (Inl e, Suc n))
      | NoReply code msg \<Rightarrow>
          (case on_response_error retried (NoReply code msg :: 'a http_reply) of
             Retry \<Rightarrow> api_dispatch srv (Suc n) True
           | Reject e \<Rightarrow> (Inl e, Suc n)))"
  by pat_completeness auto
termination
  by (relation "measure (\<lambda>(srv, n, retried). if retried then 0 else 1)")
     (auto dest: on_response_error_Retry split: if_splits)

declare api_dispatch.simps [simp del]

text \<open>A request as the components issue it: first attempt, \<open>_retry\<close> unset.\<close>

definition api_request :: "(nat \<Rightarrow> 'a http_reply) \<Rightarrow> api_error + 'a" where
  "api_request srv = fst (api_dispatch srv 0 False)"

definition api_attempts :: "(nat \<Rightarrow> 'a http_reply) \<Rightarrow> nat" where
  "api_attempts srv = snd (api_dispatch srv 0 False)"

text \<open>How \<open>Promise.allSettled\<close> reports the request.\<close>

fun settle :: "api_error + 'a \<Rightarrow> 'a settled" where
  "settle (Inr v) = Fulfilled v"
| "settle (Inl e) = Rejected (api_error_message e)"

section \<open>Health check\<close>

text \<open>
  \<open>checkBackendHealth\<close> (lines 55--71): a GET on a fresh instance without
  interceptors, so no retry; \<open>true\<close> exactly when it resolves with status 200, and
  \<open>false\<close> from the \<open>catch\<close> on every rejection.
\<close>

fun checkBackendHealth :: "'a http_reply \<Rightarrow> bool" where
  "checkBackendHealth (Reply st body) = (if validate_status st then st = 200 else False)"
| "checkBackendHealth (NoReply code msg) = False"

section \<open>Lemmas\<close>

lemma api_dispatch_retried:
  "api_dispatch srv n True =
     (case srv n of
        Reply st body \<Rightarrow> (if validate_status st then Inr body else Inl (HttpStatus st), Suc n)
      | NoReply code msg \<Rightarrow>
          (if code = ''ECONNREFUSED'' \<or> code = ''ERR_NETWORK'' then Inl BackendUnavailable
           else Inl (AxiosError code msg), Suc n))"
  by (subst api_dispatch.simps) (auto split: http_reply.splits)

lemma api_dispatch_first:
  "api_dispatch srv n False =
     (case srv n of
        Reply st body \<Rightarrow>
          if validate_status st then (Inr body, Suc n)
          else if st = 500 then api_dispatch srv (Suc n) True
          else (Inl (HttpStatus st), Suc n)
      | NoReply code msg \<Rightarrow>
          (if code = ''ECONNREFUSED'' \<or> code = ''ERR_NETWORK'' then Inl BackendUnavailable
           else Inl (AxiosError code msg), Suc n))"
  by (subst api_dispatch.simps) (auto split: http_reply.splits)

lemmas api_dispatch_unfold = api_dispatch_retried api_dispatch_first

lemma api_dispatch_True_attempts [simp]: "snd (api_dispatch srv n True) = Suc n"
  by (simp add: api_dispatch_retried split: http_reply.splits)

section \<open>Properties of the client\<close>

text \<open>
  C17: whatever the server answers, one request sends at most two attempts: the
  interceptor retries once and only once.
\<close>

theorem api_attempts_le_two: "api_attempts srv \<le> 2"
  by (auto simp: api_attempts_def api_dispatch_first split: http_reply.splits)

text \<open>
  C18: a second attempt is sent exactly when the first reply is a 500; network
  errors, timeouts and every other status are surfaced at once.
\<close>

theorem api_retry_iff_500: "api_attempts srv = 2 \<longleftrightarrow> (\<exists>b. srv 0 = Reply 500 b)"
  by (auto simp: api_attempts_def api_dispatch_first validate_status_def
      split: http_reply.splits)

text \<open>
  C19: a request resolves with data \<open>d\<close> exactly when the first reply is a 2xx
  carrying \<open>d\<close>, or the first is a 500 and the retry's reply is a 2xx carrying \<open>d\<close>.
\<close>

theorem api_request_Inr:
  "api_request srv = Inr d \<longleftrightarrow>
     (\<exists>st. validate_status st \<and>
        (srv 0 = Reply st d \<or> ((\<exists>b. srv 0 = Reply 500 b) \<and> srv 1 = Reply st d)))"
  by (auto simp: api_request_def api_dispatch_unfold validate_status_def
      split: http_reply.splits if_splits)

text \<open>
  C20: the fixed "backend not available" error is reported exactly when the last
  attempt found no server (connection refused or network error); a request whose
  first attempt failed this way is never retried.
\<close>

theorem api_unavailable_not_retried:
  assumes "srv 0 = NoReply code msg"
  shows "api_attempts srv = 1 \<and>
         (api_request srv = Inl BackendUnavailable \<longleftrightarrow> code = ''ECONNREFUSED'' \<or> code = ''ERR_NETWORK'')"
  using assms by (simp add: api_attempts_def api_request_def api_dispatch_first)

text \<open>The health check succeeds exactly on a reply with status 200.\<close>

theorem checkBackendHealth_iff: "checkBackendHealth r \<longleftrightarrow> (\<exists>b. r = Reply 200 b)"
  by (cases r) (auto simp: validate_status_def)

section \<open>Witnesses\<close>

theorem api_unavailable_not_retried_witness:
  "api_attempts (\<lambda>n. NoReply ''ECONNREFUSED'' ''connect ECONNREFUSED'' :: unit http_reply) = 1 \<and>
   api_request (\<lambda>n. NoReply ''ECONNREFUSED'' ''connect ECONNREFUSED'' :: unit http_reply) = Inl BackendUnavailable"
  using api_unavailable_not_retried [of "\<lambda>n. NoReply ''ECONNREFUSED'' ''connect ECONNREFUSED'' :: unit http_reply"
      "''ECONNREFUSED''" "''connect ECONNREFUSED''"]
  by simp

end
