(* ===== verification/Borrowing.thy ===== *)
theory Borrowing
  imports Api
begin

text \<open>
  The borrowing view of \<open>src/src/components/BorrowingManagement.tsx\<close>: its data
  (transactions, the book and member options of the borrow form), its React state as
  a record, the overdue test and day count, the status badge, the data load
  \<open>fetchData\<close>, the two handlers that post to the backend, and what each transaction
  card shows. Dates arrive as ISO strings and are compared through
  \<open>new Date(..)\<close>; the model takes them already as millisecond timestamps, and the
  wall clock \<open>new Date()\<close> as an explicit argument \<open>now\<close>.
\<close>

section \<open>Data\<close>

datatype tx_status = BORROWED | RETURNED | OVERDUE

text \<open>The nested \<open>book\<close> and \<open>member\<close> objects of a transaction (lines 15--24).\<close>

record tx_book =
  bookId :: ident
  title :: string
  author :: string

record tx_member =
  memberId :: ident
  name :: string
  email :: string

record BorrowingTransaction =
  transactionId :: "ident option"
  book :: tx_book
  member :: tx_member
  borrowDate :: timestamp
  dueDate :: timestamp
  returnDate :: "timestamp option"
  status :: tx_status

record BookOption =
  bookId :: ident
  title :: string
  author :: string
  availableCopies :: int

record MemberOption =
  memberId :: ident
  name :: string
  email :: string

text \<open>The component's state, one field per \<open>useState\<close> (lines 45--53).\<close>

record borrowing_state =
  transactions :: "BorrowingTransaction list"
  books :: "BookOption list"
  members :: "MemberOption list"
  showBorrowForm :: bool
  loading :: bool
  selectedBookId :: string
  selectedMemberId :: string
  error :: "string option"

definition borrowing_init :: borrowing_state where
  "borrowing_init =
     \<lparr>transactions = [], books = [], members = [], showBorrowForm = False, loading = True,
      selectedBookId = [], selectedMemberId = [], error = None\<rparr>"

section \<open>Loading the data\<close>

text \<open>
  \<open>fetchData\<close> (lines 59--87) in its two halves: what runs before the first
  \<open>await\<close> (\<open>setError(null)\<close>), and what runs when the three settled results
  are in. \<open>Promise.allSettled\<close> never rejects, so the \<open>catch\<close> branch is dead
  and the \<open>finally\<close> clears \<open>loading\<close>.
\<close>

definition fetch_start :: "borrowing_state \<Rightarrow> borrowing_state" where
  "fetch_start s = s\<lparr>error := None\<rparr>"

definition fetch_finish ::
  "BorrowingTransaction list settled \<Rightarrow> BookOption list settled \<Rightarrow> MemberOption list settled \<Rightarrow>
   borrowing_state \<Rightarrow> borrowing_state" where
  "fetch_finish tr br mr s =
     (let s1 = s\<lparr>transactions := settled_or tr [], books := settled_or br [],
                 members := settled_or mr []\<rparr>;
          s2 = (if is_rejected tr \<or> is_rejected br \<or> is_rejected mr
                then s1\<lparr>error := Some ''Some data could not be loaded. Please check your connection.''\<rparr>
                else s1)
      in s2\<lparr>loading := False\<rparr>)"

definition fetchData ::
  "BorrowingTransaction list settled \<Rightarrow> BookOption list settled \<Rightarrow> MemberOption list settled \<Rightarrow>
   borrowing_state \<Rightarrow> borrowing_state" where
  "fetchData tr br mr s = fetch_finish tr br mr (fetch_start s)"

section \<open>Handlers\<close>

text \<open>
  What a handler does besides updating the state: the request it sends, a fresh
  \<open>fetchData()\<close> it starts without awaiting it, an \<open>alert\<close>.
\<close>

datatype effect = Post string | StartFetch | Alert string

definition borrow_url :: "string \<Rightarrow> string \<Rightarrow> string" where
  "borrow_url b m = ''/borrowing/borrow?bookId='' @ b @ ''&memberId='' @ m"

text \<open>
  \<open>handleBorrowBook\<close> (lines 89--105), given the outcome of the \<open>POST\<close>: no
  request when either selection is the empty string; on success the selections and
  the form are reset and a reload starts; on failure an alert, and nothing else
  changes.
\<close>

definition handleBorrowBook :: "(api_error + unit) \<Rightarrow> borrowing_state \<Rightarrow> borrowing_state \<times> effect list" where
  "handleBorrowBook r s =
     (if selectedBookId s = [] \<or> selectedMemberId s = [] then (s, [])
      else
        let req = Post (borrow_url (selectedBookId s) (selectedMemberId s))
        in case r of
             Inr _ \<Rightarrow>
               (fetch_start (s\<lparr>selectedBookId := [], selectedMemberId := [], showBorrowForm := False\<rparr>),
                [req, StartFetch])
           | Inl _ \<Rightarrow>
               (s, [req, Alert ''Error borrowing book. Please check if the member has reached the borrowing limit or if the book is available.'']))"

definition return_url :: "ident \<Rightarrow> string" where
  "return_url tid = ''/borrowing/return/'' @ show_nat tid"

text \<open>
  \<open>handleReturnBook\<close> (lines 107--114): on success a reload starts; a failure is
  only logged to the console.
\<close>

definition handleReturnBook :: "ident \<Rightarrow> (api_error + unit) \<Rightarrow> borrowing_state \<Rightarrow> borrowing_state \<times> effect list" where
  "handleReturnBook tid r s =
     (case r of
        Inr _ \<Rightarrow> (fetch_start s, [Post (return_url tid), StartFetch])
      | Inl _ \<Rightarrow> (s, [Post (return_url tid)]))"

section \<open>Status and overdue detection\<close>

fun getStatusBadgeVariant :: "tx_status \<Rightarrow> badge_variant" where
  "getStatusBadgeVariant BORROWED = Default"
| "getStatusBadgeVariant RETURNED = Secondary"
| "getStatusBadgeVariant OVERDUE = Destructive"

text \<open>\<open>isOverdue\<close> (lines 129--131): \<open>new Date(dueDate) < new Date()\<close>.\<close>

definition isOverdue :: "timestamp \<Rightarrow> tx_status \<Rightarrow> timestamp \<Rightarrow> bool" where
  "isOverdue due st now \<longleftrightarrow> st = BORROWED \<and> due < now"

text \<open>
  \<open>getDaysOverdue\<close> (lines 133--139): the millisecond difference divided by the
  length of a day, rounded up, and 0 when that is not positive.
\<close>

definition getDaysOverdue :: "timestamp \<Rightarrow> timestamp \<Rightarrow> int" where
  "getDaysOverdue due now =
     (let diffTime = now - due; diffDays = ceil_div diffTime ms_per_day
      in if diffDays > 0 then diffDays else 0)"

section \<open>The rendered view\<close>

text \<open>
  What one transaction card shows (lines 230--297): the warning icon, the badge and
  its text, the \<open>Return Book\<close> button, the due date in red with the count of days
  overdue, the return date.
\<close>

record tx_card =
  card_key :: "ident option"
  warning_icon :: bool
  badge :: badge_variant
  badge_text :: tx_status
  return_button :: bool
  due_in_red :: bool
  days_overdue_note :: "int option"
  return_date_shown :: "timestamp option"

definition transaction_card :: "timestamp \<Rightarrow> BorrowingTransaction \<Rightarrow> tx_card" where
  "transaction_card now t =
     (let od = isOverdue (dueDate t) (status t) now
      in \<lparr>card_key = transactionId t,
          warning_icon = od,
          badge = getStatusBadgeVariant (status t),
          badge_text = status t,
          return_button = (status t = BORROWED),
          due_in_red = od,
          days_overdue_note = (if od then Some (getDaysOverdue (dueDate t) now) else None),
          return_date_shown = returnDate t\<rparr>)"

text \<open>
  The button's \<open>onClick\<close> (line 249): \<open>transaction.transactionId &&
  handleReturnBook(..)\<close> calls the handler only for a truthy id, so neither a
  missing id nor the id 0 sends a request.
\<close>

definition return_click :: "BorrowingTransaction \<Rightarrow> ident option" where
  "return_click t = (case transactionId t of Some i \<Rightarrow> if i \<noteq> 0 then Some i else None | None \<Rightarrow> None)"

text \<open>
  The whole page once loaded (lines 149--308): the error banner, the borrow form with
  its option lists and the enabled state of its submit button, the cards, and the
  empty-list message.
\<close>

record borrowing_view =
  error_banner :: "string option"
  form_shown :: bool
  book_choices :: "(string \<times> BookOption) list"
  member_choices :: "(string \<times> MemberOption) list"
  submit_enabled :: bool
  cards :: "tx_card list"
  empty_message :: bool

definition render_borrowing :: "timestamp \<Rightarrow> borrowing_state \<Rightarrow> borrowing_view option" where
  "render_borrowing now s =
     (if loading s then None
      else Some
        \<lparr>error_banner = error s,
         form_shown = showBorrowForm s,
         book_choices = map (\<lambda>b. (show_nat (BookOption.bookId b), b)) (books s),
         member_choices = map (\<lambda>m. (show_nat (MemberOption.memberId m), m)) (members s),
         submit_enabled = \<not> (selectedBookId s = [] \<or> selectedMemberId s = []),
         cards = map (transaction_card now) (transactions s),
         empty_message = (transactions s = [])\<rparr>)"

lemmas borrowing_defs [handler_simps] = fetch_start_def fetch_finish_def fetchData_def
  handleBorrowBook_def handleReturnBook_def

section \<open>Lemmas\<close>

lemma getDaysOverdue_max: "getDaysOverdue due now = max 0 (ceil_div (now - due) ms_per_day)"
  by (simp add: getDaysOverdue_def Let_def)

lemma getDaysOverdue_pos: "due < now \<Longrightarrow> 1 \<le> getDaysOverdue due now"
  using ceil_div_pos_iff [of ms_per_day "now - due"] by (simp add: getDaysOverdue_max)

lemma getDaysOverdue_zero: "now \<le> due \<Longrightarrow> getDaysOverdue due now = 0"
  using ceil_div_pos_iff [of ms_per_day "now - due"] by (simp add: getDaysOverdue_max)

lemma transaction_card_simps [simp]:
  "return_button (transaction_card now t) \<longleftrightarrow> status t = BORROWED"
  "warning_icon (transaction_card now t) \<longleftrightarrow> isOverdue (dueDate t) (status t) now"
  "days_overdue_note (transaction_card now t) =
     (if isOverdue (dueDate t) (status t) now then Some (getDaysOverdue (dueDate t) now) else None)"
  "badge (transaction_card now t) = getStatusBadgeVariant (status t)"
  by (simp_all add: transaction_card_def Let_def)

section \<open>Properties\<close>

text \<open>
  C1: the day count is the specification's \<open>max(0, ceil((now - dueDate) / 1 day))\<close>,
  computed over the reals as \<open>Math.ceil\<close> of the quotient would be.
\<close>

theorem getDaysOverdue_spec:
  "getDaysOverdue due now = max 0 \<lceil>real_of_int (now - due) / real_of_int ms_per_day\<rceil>"
  by (simp add: getDaysOverdue_max ceil_div_real)

text \<open>
  C6: the day count never decreases as time passes.
\<close>

theorem getDaysOverdue_mono:
  assumes "now \<le> now'"
  shows "getDaysOverdue due now \<le> getDaysOverdue due now'"
proof -
  have "ceil_div (now - due) ms_per_day \<le> ceil_div (now' - due) ms_per_day"
    using assms by (intro ceil_div_mono) simp_all
  then show ?thesis by (simp add: getDaysOverdue_max)
qed

text \<open>
  C7: \<open>k\<close> whole days after the due date the count is \<open>k\<close> (and 0 for a due date
  still ahead): a loan borrowed 20 days ago for 14 days is 6 days overdue.
\<close>

theorem getDaysOverdue_whole_days: "getDaysOverdue due (due + k * ms_per_day) = max 0 k"
proof -
  have "ceil_div (k * ms_per_day) ms_per_day = k" by (rule ceil_div_mult) simp
  then show ?thesis by (simp add: getDaysOverdue_max)
qed

text \<open>
  C2: a card flags a transaction as overdue exactly when it is \<open>BORROWED\<close> and its
  due date has passed, and then it always shows at least one day overdue.
\<close>

theorem overdue_card_days:
  "(warning_icon (transaction_card now t) \<longleftrightarrow> status t = BORROWED \<and> dueDate t < now) \<and>
   (case days_overdue_note (transaction_card now t) of
      None \<Rightarrow> \<not> warning_icon (transaction_card now t)
    | Some d \<Rightarrow> warning_icon (transaction_card now t) \<and> 1 \<le> d)"
  by (auto simp: isOverdue_def getDaysOverdue_pos)

text \<open>
  C27: a transaction whose stored status is \<open>OVERDUE\<close> gets no \<open>Return Book\<close>
  button and no overdue warning or day count, however late it is.
\<close>

theorem overdue_status_not_returnable:
  assumes "status t = OVERDUE"
  shows "\<not> return_button (transaction_card now t) \<and> \<not> warning_icon (transaction_card now t) \<and>
         days_overdue_note (transaction_card now t) = None"
  using assms by (simp add: isOverdue_def)

text \<open>
  C23: the borrow handler sends its request exactly when the rendered form's submit
  button is enabled.
\<close>

theorem borrow_request_iff_submit_enabled:
  assumes "render_borrowing now s = Some v"
  shows "snd (handleBorrowBook r s) \<noteq> [] \<longleftrightarrow> submit_enabled v"
  using assms by (auto simp: render_borrowing_def handleBorrowBook_def Let_def
      split: if_splits sum.splits)

text \<open>
  C24: a failed borrow leaves the whole component state as it was and alerts the user;
  a failed return leaves it as it was and tells the user nothing.
\<close>

theorem failed_borrow_and_return:
  assumes "r = Inl e"
  shows "handleBorrowBook r s =
           (if selectedBookId s = [] \<or> selectedMemberId s = [] then (s, [])
            else (s, [Post (borrow_url (selectedBookId s) (selectedMemberId s)),
                      Alert ''Error borrowing book. Please check if the member has reached the borrowing limit or if the book is available.'']))
         \<and> handleReturnBook tid r s = (s, [Post (return_url tid)])"
  using assms by (simp add: handleBorrowBook_def handleReturnBook_def)

text \<open>
  C25: a successful borrow clears both selections, closes the form, clears the error
  and starts a reload; the transactions on screen are only replaced by the reload.
\<close>

theorem successful_borrow:
  assumes "selectedBookId s \<noteq> []" and "selectedMemberId s \<noteq> []"
  shows "handleBorrowBook (Inr ()) s =
           (s\<lparr>selectedBookId := [], selectedMemberId := [], showBorrowForm := False, error := None\<rparr>,
            [Post (borrow_url (selectedBookId s) (selectedMemberId s)), StartFetch])"
  using assms by (simp add: handleBorrowBook_def fetch_start_def)

text \<open>
  C26: after \<open>fetchData\<close> the spinner is gone, each list holds its response or is
  empty when its request failed, and the error banner is shown exactly when one of
  the three requests failed.
\<close>

theorem fetchData_result:
  "\<not> loading (fetchData tr br mr s) \<and>
   transactions (fetchData tr br mr s) = settled_or tr [] \<and>
   books (fetchData tr br mr s) = settled_or br [] \<and>
   members (fetchData tr br mr s) = settled_or mr [] \<and>
   (error (fetchData tr br mr s) \<noteq> None \<longleftrightarrow> is_rejected tr \<or> is_rejected br \<or> is_rejected mr)"
  by (simp add: fetchData_def fetch_finish_def fetch_start_def Let_def)

text \<open>C38: the return button of a transaction with id 0 does nothing.\<close>

theorem return_click_zero:
  assumes "transactionId t = Some 0"
  shows "return_click t = None"
  using assms by (simp add: return_click_def)

section \<open>Witnesses\<close>

theorem getDaysOverdue_mono_witness:
  "(1209600000::int) \<le> 1728000000 \<and>
   getDaysOverdue 0 1209600000 \<le> getDaysOverdue 0 1728000000"
  using getDaysOverdue_mono [of 1209600000 1728000000 0] by simp

theorem overdue_status_not_returnable_witness:
  "status (\<lparr>transactionId = Some 7,
            book = \<lparr>tx_book.bookId = 1, tx_book.title = ''Dune'', tx_book.author = ''Herbert''\<rparr>,
            member = \<lparr>tx_member.memberId = 2, tx_member.name = ''Ann'', tx_member.email = ''ann@lib''\<rparr>,
            borrowDate = 0, dueDate = 1209600000, returnDate = None, status = OVERDUE\<rparr>) = OVERDUE \<and>
   \<not> return_button (transaction_card 1728000000
       \<lparr>transactionId = Some 7,
        book = \<lparr>tx_book.bookId = 1, tx_book.title = ''Dune'', tx_book.author = ''Herbert''\<rparr>,
        member = \<lparr>tx_member.memberId = 2, tx_member.name = ''Ann'', tx_member.email = ''ann@lib''\<rparr>,
        borrowDate = 0, dueDate = 1209600000, returnDate = None, status = OVERDUE\<rparr>)"
  using overdue_status_not_returnable [of
      "\<lparr>transactionId = Some 7,
        book = \<lparr>tx_book.bookId = 1, tx_book.title = ''Dune'', tx_book.author = ''Herbert''\<rparr>,
        member = \<lparr>tx_member.memberId = 2, tx_member.name = ''Ann'', tx_member.email = ''ann@lib''\<rparr>,
        borrowDate = 0, dueDate = 1209600000, returnDate = None, status = OVERDUE\<rparr>" 1728000000]
  by simp

theorem borrow_request_iff_submit_enabled_witness:
  "render_borrowing 0 (borrowing_init\<lparr>loading := False, selectedBookId := ''1''\<rparr>) =
     Some \<lparr>error_banner = None, form_shown = False, book_choices = [], member_choices = [],
           submit_enabled = False, cards = [], empty_message = True\<rparr> \<and>
   snd (handleBorrowBook (Inr ()) (borrowing_init\<lparr>loading := False, selectedBookId := ''1''\<rparr>)) = []"
proof -
  have v: "render_borrowing 0 (borrowing_init\<lparr>loading := False, selectedBookId := ''1''\<rparr>) =
     Some \<lparr>error_banner = None, form_shown = False, book_choices = [], member_choices = [],
           submit_enabled = False, cards = [], empty_message = True\<rparr>"
    by (simp add: render_borrowing_def borrowing_init_def)
  show ?thesis using borrow_request_iff_submit_enabled [OF v, of "Inr ()"] v by simp
qed

theorem failed_borrow_and_return_witness:
  "(Inl BackendUnavailable :: api_error + unit) = Inl BackendUnavailable \<and>
   fst (handleBorrowBook (Inl BackendUnavailable)
          (borrowing_init\<lparr>selectedBookId := ''1'', selectedMemberId := ''2''\<rparr>)) =
     borrowing_init\<lparr>selectedBookId := ''1'', selectedMemberId := ''2''\<rparr> \<and>
   handleReturnBook 7 (Inl BackendUnavailable) borrowing_init = (borrowing_init, [Post (return_url 7)])"
  using failed_borrow_and_return [of "Inl BackendUnavailable" BackendUnavailable
      "borrowing_init\<lparr>selectedBookId := ''1'', selectedMemberId := ''2''\<rparr>" 7]
    failed_borrow_and_return [of "Inl BackendUnavailable" BackendUnavailable borrowing_init 7]
  by (simp add: borrowing_init_def)

theorem successful_borrow_witness:
  "selectedBookId (borrowing_init\<lparr>selectedBookId := ''1'', selectedMemberId := ''2''\<rparr>) \<noteq> [] \<and>
   selectedMemberId (borrowing_init\<lparr>selectedBookId := ''1'', selectedMemberId := ''2''\<rparr>) \<noteq> [] \<and>
   snd (handleBorrowBook (Inr ()) (borrowing_init\<lparr>selectedBookId := ''1'', selectedMemberId := ''2''\<rparr>)) =
     [Post ''/borrowing/borrow?bookId=1&memberId=2'', StartFetch]"
  using successful_borrow [of "borrowing_init\<lparr>selectedBookId := ''1'', selectedMemberId := ''2''\<rparr>"]
  by (simp add: borrow_url_def)

theorem return_click_zero_witness:
  "return_click
     \<lparr>transactionId = Some 0,
      book = \<lparr>tx_book.bookId = 1, tx_book.title = ''Dune'', tx_book.author = ''Herbert''\<rparr>,
      member = \<lparr>tx_member.memberId = 2, tx_member.name = ''Ann'', tx_member.email = ''ann@lib''\<rparr>,
      borrowDate = 0, dueDate = 1209600000, returnDate = None, status = BORROWED\<rparr> = None"
  by (rule return_click_zero) simp

end
