(* ===== verification/Books.thy ===== *)
theory Books
  imports Api
begin

text \<open>
  The catalogue view of \<open>src/src/components/BookManagement.tsx\<close>: the \<open>BookType\<close>
  record, the component state, the load, add, update, delete and search handlers with
  the outcome of their request as an argument, the inputs of the add and edit forms,
  the client-side filter, and the book cards. \<open>Number.parseInt\<close> of a form field
  is taken to give an integer (the \<open>NaN\<close> of an empty field is not modelled).
\<close>

section \<open>Data and state\<close>

record BookType =
  bookId :: "ident option"
  title :: string
  author :: string
  genre :: string
  isbn :: string
  yearPublished :: int
  availableCopies :: int
  totalCopies :: int

record book_state =
  books :: "BookType list"
  searchTerm :: string
  showAddForm :: bool
  editingBook :: "BookType option"
  loading :: bool
  newBook :: BookType
  error :: "string option"

text \<open>The empty add form (lines 30--38 and 65--73); \<open>year\<close> is \<open>new Date().getFullYear()\<close>.\<close>

definition empty_book :: "int \<Rightarrow> BookType" where
  "empty_book year =
     \<lparr>bookId = None, title = [], author = [], genre = [], isbn = [], yearPublished = year,
      availableCopies = 1, totalCopies = 1\<rparr>"

definition book_init :: "int \<Rightarrow> book_state" where
  "book_init year =
     \<lparr>books = [], searchTerm = [], showAddForm = False, editingBook = None, loading = True,
      newBook = empty_book year, error = None\<rparr>"

section \<open>Handlers\<close>

text \<open>The requests a handler sends and the reloads it starts without awaiting them.\<close>

datatype book_effect = Get string | PostBook BookType | PutBook string BookType
  | DeleteBook string | ReloadBooks

text \<open>
  \<open>fetchBooks\<close> (lines 47--59): the list on success; on failure the error's message,
  or the fixed text when the message is empty, and an empty list; \<open>loading\<close> ends.
\<close>

definition fetchBooks :: "(api_error + BookType list) \<Rightarrow> book_state \<Rightarrow> book_state" where
  "fetchBooks r s =
     (let s0 = s\<lparr>error := None\<rparr>;
          s1 = (case r of
                  Inr data \<Rightarrow> s0\<lparr>books := data\<rparr>
                | Inl e \<Rightarrow>
                    let m = api_error_message e
                    in s0\<lparr>error := Some (if m = [] then
                            ''Failed to fetch books. Please check if the backend server is running.'' else m),
                          books := []\<rparr>)
      in s1\<lparr>loading := False\<rparr>)"

text \<open>\<open>handleAddBook\<close> (lines 61--79): a failure is only logged.\<close>

definition handleAddBook :: "int \<Rightarrow> (api_error + unit) \<Rightarrow> book_state \<Rightarrow> book_state \<times> book_effect list" where
  "handleAddBook year r s =
     (case r of
        Inr _ \<Rightarrow> (s\<lparr>newBook := empty_book year, showAddForm := False\<rparr>, [PostBook (newBook s), ReloadBooks])
      | Inl _ \<Rightarrow> (s, [PostBook (newBook s)]))"

text \<open>
  \<open>handleUpdateBook\<close> (lines 81--92): \<open>if (!editingBook?.bookId) return\<close> stops on
  no book being edited, on a missing id and on the id 0.
\<close>

definition handleUpdateBook :: "(api_error + unit) \<Rightarrow> book_state \<Rightarrow> book_state \<times> book_effect list" where
  "handleUpdateBook r s =
     (case editingBook s of
        None \<Rightarrow> (s, [])
      | Some b \<Rightarrow>
          (case bookId b of
             None \<Rightarrow> (s, [])
           | Some i \<Rightarrow>
               if i = 0 then (s, [])
               else
                 let req = PutBook (''/books/'' @ show_nat i) b
                 in case r of
                      Inr _ \<Rightarrow> (s\<lparr>editingBook := None\<rparr>, [req, ReloadBooks])
                    | Inl _ \<Rightarrow> (s, [req])))"

text \<open>\<open>handleDeleteBook\<close> (lines 94--103): nothing unless the user confirms.\<close>

definition handleDeleteBook :: "bool \<Rightarrow> ident \<Rightarrow> (api_error + unit) \<Rightarrow> book_state \<Rightarrow> book_state \<times> book_effect list" where
  "handleDeleteBook confirmed i r s =
     (if \<not> confirmed then (s, [])
      else case r of
             Inr _ \<Rightarrow> (s, [DeleteBook (''/books/'' @ show_nat i), ReloadBooks])
           | Inl _ \<Rightarrow> (s, [DeleteBook (''/books/'' @ show_nat i)]))"

text \<open>
  \<open>handleSearch\<close> (lines 105--117): a blank term (after \<open>trim\<close>) reloads the whole
  catalogue; otherwise the server's search result replaces the list, and a failure is
  only logged. The URL encoding of the term is left abstract as \<open>enc\<close>.
\<close>

definition handleSearch ::
  "(string \<Rightarrow> string) \<Rightarrow> (api_error + BookType list) \<Rightarrow> book_state \<Rightarrow> book_state \<times> book_effect list" where
  "handleSearch enc r s =
     (if js_trim (searchTerm s) = [] then (s, [ReloadBooks])
      else
        let req = Get (''/books/search?keyword='' @ enc (searchTerm s))
        in case r of
             Inr data \<Rightarrow> (s\<lparr>books := data\<rparr>, [req])
           | Inl _ \<Rightarrow> (s, [req]))"

section \<open>The filter\<close>

text \<open>\<open>filteredBooks\<close> (lines 119--124).\<close>

definition book_matches :: "string \<Rightarrow> BookType \<Rightarrow> bool" where
  "book_matches term b \<longleftrightarrow>
     js_includes (js_to_lower (title b)) (js_to_lower term) \<or>
     js_includes (js_to_lower (author b)) (js_to_lower term) \<or>
     js_includes (js_to_lower (genre b)) (js_to_lower term)"

definition filteredBooks :: "string \<Rightarrow> BookType list \<Rightarrow> BookType list" where
  "filteredBooks term bs = filter (book_matches term) bs"

section \<open>The forms\<close>

text \<open>One \<open>onChange\<close> of a form field, with the parsed value.\<close>

datatype book_field_input =
    SetTitle string | SetAuthor string | SetGenre string | SetIsbn string
  | SetYear int | SetTotalCopies int

text \<open>
  The add form (lines 186--247): changing \<open>Total Copies\<close> sets both counts.
\<close>

fun new_book_input :: "book_field_input \<Rightarrow> BookType \<Rightarrow> BookType" where
  "new_book_input (SetTitle v) b = b\<lparr>title := v\<rparr>"
| "new_book_input (SetAuthor v) b = b\<lparr>author := v\<rparr>"
| "new_book_input (SetGenre v) b = b\<lparr>genre := v\<rparr>"
| "new_book_input (SetIsbn v) b = b\<lparr>isbn := v\<rparr>"
| "new_book_input (SetYear v) b = b\<lparr>yearPublished := v\<rparr>"
| "new_book_input (SetTotalCopies c) b = b\<lparr>totalCopies := c, availableCopies := c\<rparr>"

text \<open>
  The edit form (lines 269--322): changing \<open>Total Copies\<close> sets only
  \<open>totalCopies\<close>; \<open>availableCopies\<close> keeps the loaded value.
\<close>

fun edit_book_input :: "book_field_input \<Rightarrow> BookType \<Rightarrow> BookType" where
  "edit_book_input (SetTitle v) b = b\<lparr>title := v\<rparr>"
| "edit_book_input (SetAuthor v) b = b\<lparr>author := v\<rparr>"
| "edit_book_input (SetGenre v) b = b\<lparr>genre := v\<rparr>"
| "edit_book_input (SetIsbn v) b = b\<lparr>isbn := v\<rparr>"
| "edit_book_input (SetYear v) b = b\<lparr>yearPublished := v\<rparr>"
| "edit_book_input (SetTotalCopies c) b = b\<lparr>totalCopies := c\<rparr>"

text \<open>The \<open>min="1"\<close> of the Total Copies fields (lines 235 and 319), which the browser checks on submit.\<close>

definition copies_valid :: "BookType \<Rightarrow> bool" where
  "copies_valid b \<longleftrightarrow> 1 \<le> totalCopies b"

text \<open>The invariant of the data model: \<open>0 <= availableCopies <= totalCopies\<close>.\<close>

definition copies_ok :: "BookType \<Rightarrow> bool" where
  "copies_ok b \<longleftrightarrow> 0 \<le> availableCopies b \<and> availableCopies b \<le> totalCopies b"

section \<open>The rendered view\<close>

text \<open>A book card (lines 338--376): its key, the edit and delete buttons, the badge.\<close>

record book_card =
  bcard_key :: "ident option"
  bcard_badge :: badge_variant
  bcard_available :: int
  bcard_total :: int

definition book_card_of :: "BookType \<Rightarrow> book_card" where
  "book_card_of b =
     \<lparr>bcard_key = bookId b,
      bcard_badge = (if availableCopies b > 0 then Default else Destructive),
      bcard_available = availableCopies b, bcard_total = totalCopies b\<rparr>"

record book_view =
  bview_error :: "string option"
  bview_cards :: "book_card list"
  bview_empty :: bool

definition render_books :: "book_state \<Rightarrow> book_view option" where
  "render_books s =
     (if loading s then None
      else let fb = filteredBooks (searchTerm s) (books s)
           in Some \<lparr>bview_error = error s, bview_cards = map book_card_of fb, bview_empty = (fb = [])\<rparr>)"

text \<open>The delete button's \<open>book.bookId && handleDeleteBook(..)\<close> (line 350).\<close>

definition delete_click :: "BookType \<Rightarrow> ident option" where
  "delete_click b = (case bookId b of Some i \<Rightarrow> if i \<noteq> 0 then Some i else None | None \<Rightarrow> None)"

lemmas book_handler_defs [handler_simps] = fetchBooks_def handleAddBook_def handleUpdateBook_def
  handleDeleteBook_def handleSearch_def

section \<open>Lemmas\<close>

lemma book_matches_lower [simp]: "book_matches (js_to_lower term) = book_matches term"
  by (rule ext) (simp add: book_matches_def del: js_includes_sublist)

lemma new_book_input_copies: "availableCopies b = totalCopies b \<Longrightarrow>
    availableCopies (new_book_input e b) = totalCopies (new_book_input e b)"
  by (cases e) simp_all

section \<open>Properties\<close>

text \<open>
  C30: the client-side filter is the search of the specification (section 4.1): it keeps,
  in their original order, exactly the books whose title, author or genre contains the term as a
  substring once both are lower-cased; an empty term keeps every one of them.
\<close>

theorem filteredBooks_spec:
  "filteredBooks term bs =
     [b \<leftarrow> bs. (\<exists>u w. js_to_lower (title b) = u @ js_to_lower term @ w) \<or>
        (\<exists>u w. js_to_lower (author b) = u @ js_to_lower term @ w) \<or>
        (\<exists>u w. js_to_lower (genre b) = u @ js_to_lower term @ w)] \<and>
   filteredBooks [] bs = bs"
proof -
  have "filteredBooks term bs =
     [b \<leftarrow> bs. (\<exists>u w. js_to_lower (title b) = u @ js_to_lower term @ w) \<or>
        (\<exists>u w. js_to_lower (author b) = u @ js_to_lower term @ w) \<or>
        (\<exists>u w. js_to_lower (genre b) = u @ js_to_lower term @ w)]"
    unfolding filteredBooks_def by (rule filter_cong) (simp_all add: book_matches_def sublist_def)
  moreover have "filteredBooks [] bs = bs"
    by (simp add: filteredBooks_def book_matches_def)
  ultimately show ?thesis by blast
qed

text \<open>
  C31: every sequence of inputs to the add form leaves it with as many available
  copies as copies in total, so a book is always created with all its copies
  available.
\<close>

theorem new_book_form_copies:
  "availableCopies (fold new_book_input es (empty_book year)) =
   totalCopies (fold new_book_input es (empty_book year))"
proof -
  have "availableCopies b = totalCopies b \<Longrightarrow>
      availableCopies (fold new_book_input es b) = totalCopies (fold new_book_input es b)" for b
    by (induction es arbitrary: b) (simp_all add: new_book_input_copies)
  then show ?thesis by (simp add: empty_book_def)
qed

text \<open>
  C32: the edit form does not keep the data model's invariant. For every consistent
  book and every number typed into its \<open>Total Copies\<close> field, the browser accepts
  the number exactly when it is at least 1 (\<open>min="1"\<close>), the available count is left
  as it was, and the edited book is consistent exactly when the new total is at least
  the available count: any accepted total below it is sent with more copies available
  than the book has.
\<close>

theorem edit_total_breaks_copies:
  assumes "copies_ok b"
  shows "(copies_valid (edit_book_input (SetTotalCopies n) b) \<longleftrightarrow> 1 \<le> n) \<and>
         availableCopies (edit_book_input (SetTotalCopies n) b) = availableCopies b \<and>
         (copies_ok (edit_book_input (SetTotalCopies n) b) \<longleftrightarrow> availableCopies b \<le> n)"
  using assms by (simp add: copies_ok_def copies_valid_def)

text \<open>
  C33: a search term of blanks is treated as empty by \<open>handleSearch\<close>, which leaves
  the state alone and reloads the whole catalogue, but not by the filter of the rendered
  list: every book with no white space in its title, author and genre is hidden, and
  when no book has any the page shows the empty-catalogue message.
\<close>

theorem blank_search_hides_books:
  assumes "js_trim (searchTerm s) = []" and "searchTerm s \<noteq> []"
  shows "handleSearch enc r s = (s, [ReloadBooks]) \<and>
         (\<forall>b \<in> set (books s). (\<forall>c \<in> set (title b @ author b @ genre b). \<not> js_space c) \<longrightarrow>
            b \<notin> set (filteredBooks (searchTerm s) (books s))) \<and>
         ((\<forall>b \<in> set (books s). \<forall>c \<in> set (title b @ author b @ genre b). \<not> js_space c) \<longrightarrow>
            \<not> loading s \<longrightarrow>
            render_books s = Some \<lparr>bview_error = error s, bview_cards = [], bview_empty = True\<rparr>)"
proof -
  obtain c cs where t: "searchTerm s = c # cs" using assms(2) by (cases "searchTerm s") auto
  have sp: "js_space c" using assms(1) t by (simp add: js_trim_Nil_iff)
  have hidden: "\<not> book_matches (searchTerm s) b"
    if "\<forall>d \<in> set (title b @ author b @ genre b). \<not> js_space d" for b
  proof -
    have "\<not> sublist (js_to_lower (searchTerm s)) (js_to_lower f)"
      if "\<forall>d \<in> set f. \<not> js_space d" for f
    proof
      assume "sublist (js_to_lower (searchTerm s)) (js_to_lower f)"
      then have "js_lower_char c \<in> set (js_to_lower f)"
        using t set_mono_sublist by (fastforce simp: js_to_lower_def)
      then obtain d where "d \<in> set f" and "js_lower_char d = js_lower_char c"
        by (auto simp: js_to_lower_def)
      then show False using that sp js_space_lower [of d] js_space_lower [of c] by auto
    qed
    then show ?thesis using that by (simp add: book_matches_def)
  qed
  have h1: "handleSearch enc r s = (s, [ReloadBooks])"
    using assms(1) by (simp add: handleSearch_def)
  have h2: "\<forall>b \<in> set (books s). (\<forall>c \<in> set (title b @ author b @ genre b). \<not> js_space c) \<longrightarrow>
            b \<notin> set (filteredBooks (searchTerm s) (books s))"
    using hidden by (simp add: filteredBooks_def)
  have h3: "render_books s = Some \<lparr>bview_error = error s, bview_cards = [], bview_empty = True\<rparr>"
    if "\<forall>b \<in> set (books s). \<forall>c \<in> set (title b @ author b @ genre b). \<not> js_space c"
      and "\<not> loading s"
  proof -
    have "filteredBooks (searchTerm s) (books s) = []"
      using that(1) hidden by (simp add: filteredBooks_def filter_empty_conv)
    then show ?thesis using that(2) by (simp add: render_books_def)
  qed
  show ?thesis using h1 h2 h3 by blast
qed

text \<open>
  C34: the update handler sends its \<open>PUT\<close> only for a book being edited whose id is
  set and non-zero, to that book's URL; it closes the form only when the request
  succeeds.
\<close>

theorem handleUpdateBook_request:
  assumes "snd (handleUpdateBook r s) \<noteq> []"
  shows "\<exists>b i. editingBook s = Some b \<and> bookId b = Some i \<and> i \<noteq> 0 \<and>
           hd (snd (handleUpdateBook r s)) = PutBook (''/books/'' @ show_nat i) b \<and>
           (editingBook (fst (handleUpdateBook r s)) = None \<longleftrightarrow> r = Inr ())"
  using assms by (auto simp: handleUpdateBook_def Let_def split: option.splits if_splits sum.splits)

text \<open>
  A failed load of the catalogue empties the list, shows a non-empty error and
  ends the spinner; a successful one shows the server's list and no error.
\<close>

theorem fetchBooks_result:
  "\<not> loading (fetchBooks r s) \<and>
   (case r of
      Inr data \<Rightarrow> books (fetchBooks r s) = data \<and> error (fetchBooks r s) = None
    | Inl e \<Rightarrow> books (fetchBooks r s) = [] \<and> (\<exists>m. error (fetchBooks r s) = Some m \<and> m \<noteq> []))"
  by (simp add: fetchBooks_def Let_def split: sum.splits)

section \<open>Witnesses\<close>

theorem edit_total_breaks_copies_witness:
  "copies_ok \<lparr>bookId = Some 1, title = ''Dune'', author = ''Herbert'', genre = ''SF'', isbn = ''1'',
              yearPublished = 1965, availableCopies = 3, totalCopies = 3\<rparr> \<and>
   copies_valid (edit_book_input (SetTotalCopies 1)
     \<lparr>bookId = Some 1, title = ''Dune'', author = ''Herbert'', genre = ''SF'', isbn = ''1'',
      yearPublished = 1965, availableCopies = 3, totalCopies = 3\<rparr>) \<and>
   \<not> copies_ok (edit_book_input (SetTotalCopies 1)
     \<lparr>bookId = Some 1, title = ''Dune'', author = ''Herbert'', genre = ''SF'', isbn = ''1'',
      yearPublished = 1965, availableCopies = 3, totalCopies = 3\<rparr>)"
proof -
  have h: "copies_ok \<lparr>bookId = Some 1, title = ''Dune'', author = ''Herbert'', genre = ''SF'', isbn = ''1'',
              yearPublished = 1965, availableCopies = 3, totalCopies = 3\<rparr>"
    by (simp add: copies_ok_def)
  show ?thesis using h edit_total_breaks_copies [OF h, of 1] by simp
qed

theorem blank_search_hides_books_witness:
  "js_trim '' '' = [] \<and>
   render_books
     \<lparr>books = [\<lparr>bookId = Some 1, title = ''Dune'', author = ''Herbert'', genre = ''SF'', isbn = ''1'',
                 yearPublished = 1965, availableCopies = 1, totalCopies = 1\<rparr>],
      searchTerm = '' '', showAddForm = False, editingBook = None, loading = False,
      newBook = empty_book 2024, error = None\<rparr> =
   Some \<lparr>bview_error = None, bview_cards = [], bview_empty = True\<rparr>"
proof -
  let ?s = "\<lparr>books = [\<lparr>bookId = Some 1, title = ''Dune'', author = ''Herbert'', genre = ''SF'', isbn = ''1'',
                 yearPublished = 1965, availableCopies = 1, totalCopies = 1\<rparr>],
      searchTerm = '' '', showAddForm = False, editingBook = None, loading = False,
      newBook = empty_book 2024, error = None\<rparr>"
  have a: "js_trim (searchTerm ?s) = []" by code_simp
  have b: "searchTerm ?s \<noteq> []" by simp
  have n: "\<forall>b \<in> set (books ?s). \<forall>c \<in> set (title b @ author b @ genre b). \<not> js_space c" by code_simp
  have "render_books ?s = Some \<lparr>bview_error = error ?s, bview_cards = [], bview_empty = True\<rparr>"
    using blank_search_hides_books [OF a b] n by simp
  then show ?thesis using a by simp
qed

theorem handleUpdateBook_request_witness:
  "snd (handleUpdateBook (Inr ()) ((book_init 2024)\<lparr>editingBook := Some ((empty_book 2024)\<lparr>bookId := Some 5\<rparr>)\<rparr>))
     = [PutBook ''/books/5'' ((empty_book 2024)\<lparr>bookId := Some 5\<rparr>), ReloadBooks] \<and>
   editingBook (fst (handleUpdateBook (Inr ())
     ((book_init 2024)\<lparr>editingBook := Some ((empty_book 2024)\<lparr>bookId := Some 5\<rparr>)\<rparr>))) = None"
proof -
  have "snd (handleUpdateBook (Inr ()) ((book_init 2024)\<lparr>editingBook := Some ((empty_book 2024)\<lparr>bookId := Some 5\<rparr>)\<rparr>))
     = [PutBook ''/books/5'' ((empty_book 2024)\<lparr>bookId := Some 5\<rparr>), ReloadBooks]"
    by code_simp
  with handleUpdateBook_request [of "Inr ()"
      "(book_init 2024)\<lparr>editingBook := Some ((empty_book 2024)\<lparr>bookId := Some 5\<rparr>)\<rparr>"]
  show ?thesis by simp
qed

end
