(* ===== verification/Members.thy ===== *)
theory Members
  imports Api
begin

text \<open>
  The member view of \<open>src/src/components/MemberManagement.tsx\<close>: the \<open>Member\<close>
  record and its membership status, the component state, the load, add, update,
  delete and search handlers with the outcome of their request as an argument, the
  add and edit forms, the client-side filter on name and e-mail, and the member cards.
  The view has the same shape as the catalogue view; its handlers that share a name
  with the catalogue's carry the word \<open>Member\<close>.
\<close>

section \<open>Data and state\<close>

datatype membershipStatus = ACTIVE | SUSPENDED | EXPIRED

record Member =
  memberId :: "ident option"
  name :: string
  email :: string
  phone :: string
  address :: string
  membershipStatus :: membershipStatus
  registrationDate :: "timestamp option"

record member_state =
  members :: "Member list"
  searchTerm :: string
  showAddForm :: bool
  editingMember :: "Member option"
  loading :: bool
  newMember :: Member
  error :: "string option"

text \<open>The empty add form (lines 29--35 and 62--68): a new member is \<open>ACTIVE\<close>.\<close>

definition empty_member :: Member where
  "empty_member =
     \<lparr>memberId = None, name = [], email = [], phone = [], address = [],
      membershipStatus = ACTIVE, registrationDate = None\<rparr>"

definition member_init :: member_state where
  "member_init =
     \<lparr>members = [], searchTerm = [], showAddForm = False, editingMember = None, loading = True,
      newMember = empty_member, error = None\<rparr>"

section \<open>Handlers\<close>

datatype member_effect = GetMembers string | PostMember Member | PutMember string Member
  | DeleteMember string | ReloadMembers

text \<open>\<open>fetchMembers\<close> (lines 44--56).\<close>

definition fetchMembers :: "(api_error + Member list) \<Rightarrow> member_state \<Rightarrow> member_state" where
  "fetchMembers r s =
     (let s0 = s\<lparr>error := None\<rparr>;
          s1 = (case r of
                  Inr data \<Rightarrow> s0\<lparr>members := data\<rparr>
                | Inl e \<Rightarrow>
                    let m = api_error_message e
                    in s0\<lparr>error := Some (if m = [] then
                            ''Failed to fetch members. Please check if the backend server is running.'' else m),
                          members := []\<rparr>)
      in s1\<lparr>loading := False\<rparr>)"

text \<open>\<open>handleAddMember\<close> (lines 58--74): a failure is only logged.\<close>

definition handleAddMember :: "(api_error + unit) \<Rightarrow> member_state \<Rightarrow> member_state \<times> member_effect list" where
  "handleAddMember r s =
     (case r of
        Inr _ \<Rightarrow> (s\<lparr>newMember := empty_member, showAddForm := False\<rparr>, [PostMember (newMember s), ReloadMembers])
      | Inl _ \<Rightarrow> (s, [PostMember (newMember s)]))"

text \<open>\<open>handleUpdateMember\<close> (lines 76--87), with the falsy-id guard.\<close>

definition handleUpdateMember :: "(api_error + unit) \<Rightarrow> member_state \<Rightarrow> member_state \<times> member_effect list" where
  "handleUpdateMember r s =
     (case editingMember s of
        None \<Rightarrow> (s, [])
      | Some m \<Rightarrow>
          (case memberId m of
             None \<Rightarrow> (s, [])
           | Some i \<Rightarrow>
               if i = 0 then (s, [])
               else
                 let req = PutMember (''/members/'' @ show_nat i) m
                 in case r of
                      Inr _ \<Rightarrow> (s\<lparr>editingMember := None\<rparr>, [req, ReloadMembers])
                    | Inl _ \<Rightarrow> (s, [req])))"

text \<open>\<open>handleDeleteMember\<close> (lines 89--98).\<close>

definition handleDeleteMember :: "bool \<Rightarrow> ident \<Rightarrow> (api_error + unit) \<Rightarrow> member_state \<Rightarrow> member_state \<times> member_effect list" where
  "handleDeleteMember confirmed i r s =
     (if \<not> confirmed then (s, [])
      else case r of
             Inr _ \<Rightarrow> (s, [DeleteMember (''/members/'' @ show_nat i), ReloadMembers])
           | Inl _ \<Rightarrow> (s, [DeleteMember (''/members/'' @ show_nat i)]))"

text \<open>\<open>handleSearch\<close> of the member view (lines 100--112).\<close>

definition handleMemberSearch ::
  "(string \<Rightarrow> string) \<Rightarrow> (api_error + Member list) \<Rightarrow> member_state \<Rightarrow> member_state \<times> member_effect list" where
  "handleMemberSearch enc r s =
     (if js_trim (searchTerm s) = [] then (s, [ReloadMembers])
      else
        let req = GetMembers (''/members/search?name='' @ enc (searchTerm s))
        in case r of
             Inr data \<Rightarrow> (s\<lparr>members := data\<rparr>, [req])
           | Inl _ \<Rightarrow> (s, [req]))"

section \<open>Filter and badge\<close>

text \<open>\<open>filteredMembers\<close> (lines 114--118).\<close>

definition member_matches :: "string \<Rightarrow> Member \<Rightarrow> bool" where
  "member_matches term m \<longleftrightarrow>
     js_includes (js_to_lower (name m)) (js_to_lower term) \<or>
     js_includes (js_to_lower (email m)) (js_to_lower term)"

definition filteredMembers :: "string \<Rightarrow> Member list \<Rightarrow> Member list" where
  "filteredMembers term ms = filter (member_matches term) ms"

text \<open>\<open>getStatusBadgeVariant\<close> of the member view (lines 120--131).\<close>

fun memberStatusBadgeVariant :: "membershipStatus \<Rightarrow> badge_variant" where
  "memberStatusBadgeVariant ACTIVE = Default"
| "memberStatusBadgeVariant SUSPENDED = Destructive"
| "memberStatusBadgeVariant EXPIRED = Secondary"

section \<open>The forms\<close>

datatype member_field_input =
    SetName string | SetEmail string | SetPhone string | SetAddress string
  | SetStatus membershipStatus

text \<open>The add form (lines 183--231) has no status field.\<close>

fun new_member_input :: "member_field_input \<Rightarrow> Member \<Rightarrow> Member" where
  "new_member_input (SetName v) m = m\<lparr>name := v\<rparr>"
| "new_member_input (SetEmail v) m = m\<lparr>email := v\<rparr>"
| "new_member_input (SetPhone v) m = m\<lparr>phone := v\<rparr>"
| "new_member_input (SetAddress v) m = m\<lparr>address := v\<rparr>"
| "new_member_input (SetStatus v) m = m"

text \<open>The edit form (lines 240--301), with its status \<open>select\<close>.\<close>

fun edit_member_input :: "member_field_input \<Rightarrow> Member \<Rightarrow> Member" where
  "edit_member_input (SetName v) m = m\<lparr>name := v\<rparr>"
| "edit_member_input (SetEmail v) m = m\<lparr>email := v\<rparr>"
| "edit_member_input (SetPhone v) m = m\<lparr>phone := v\<rparr>"
| "edit_member_input (SetAddress v) m = m\<lparr>address := v\<rparr>"
| "edit_member_input (SetStatus v) m = m\<lparr>membershipStatus := v\<rparr>"

section \<open>The rendered view\<close>

record member_card =
  mcard_key :: "ident option"
  mcard_badge :: badge_variant
  mcard_status :: membershipStatus
  mcard_registered :: "timestamp option"

definition member_card_of :: "Member \<Rightarrow> member_card" where
  "member_card_of m =
     \<lparr>mcard_key = memberId m, mcard_badge = memberStatusBadgeVariant (membershipStatus m),
      mcard_status = membershipStatus m, mcard_registered = registrationDate m\<rparr>"

record member_view =
  mview_error :: "string option"
  mview_cards :: "member_card list"
  mview_empty :: bool

definition render_members :: "member_state \<Rightarrow> member_view option" where
  "render_members s =
     (if loading s then None
      else let fm = filteredMembers (searchTerm s) (members s)
           in Some \<lparr>mview_error = error s, mview_cards = map member_card_of fm, mview_empty = (fm = [])\<rparr>)"

lemmas member_handler_defs [handler_simps] = fetchMembers_def handleAddMember_def
  handleUpdateMember_def handleDeleteMember_def handleMemberSearch_def

section \<open>Lemmas\<close>

lemma member_matches_lower [simp]: "member_matches (js_to_lower term) = member_matches term"
  by (rule ext) (simp add: member_matches_def del: js_includes_sublist)

section \<open>Properties\<close>

text \<open>
  C35: the client-side filter is the search of the specification (section 4.1): it keeps,
  in their original order, exactly the members whose name or e-mail contains the term as a
  substring once both are lower-cased; an empty term keeps every one of them.
\<close>

theorem filteredMembers_spec:
  "filteredMembers term ms =
     [m \<leftarrow> ms. (\<exists>u w. js_to_lower (name m) = u @ js_to_lower term @ w) \<or>
        (\<exists>u w. js_to_lower (email m) = u @ js_to_lower term @ w)] \<and>
   filteredMembers [] ms = ms"
proof -
  have "filteredMembers term ms =
     [m \<leftarrow> ms. (\<exists>u w. js_to_lower (name m) = u @ js_to_lower term @ w) \<or>
        (\<exists>u w. js_to_lower (email m) = u @ js_to_lower term @ w)]"
    unfolding filteredMembers_def by (rule filter_cong) (simp_all add: member_matches_def sublist_def)
  moreover have "filteredMembers [] ms = ms"
    by (simp add: filteredMembers_def member_matches_def)
  ultimately show ?thesis by blast
qed

text \<open>
  C36: a member created through the add form is always \<open>ACTIVE\<close>, whatever was typed:
  the form has no status input.
\<close>

theorem new_member_active: "membershipStatus (fold new_member_input es empty_member) = ACTIVE"
proof -
  have "membershipStatus (fold new_member_input es m) = membershipStatus m" for m
  proof (induction es arbitrary: m)
    case Nil
    then show ?case by simp
  next
    case (Cons e es)
    then show ?case by (cases e) simp_all
  qed
  then show ?thesis by (simp add: empty_member_def)
qed

text \<open>
  The badge tells the three statuses apart and marks exactly the suspended
  members as destructive.
\<close>

theorem memberStatusBadgeVariant_inj:
  "inj memberStatusBadgeVariant \<and>
   (memberStatusBadgeVariant st = Destructive \<longleftrightarrow> st = SUSPENDED)"
proof -
  have "inj memberStatusBadgeVariant"
  proof (rule injI)
    fix a b assume "memberStatusBadgeVariant a = memberStatusBadgeVariant b"
    then show "a = b" by (cases a; cases b) simp_all
  qed
  moreover have "memberStatusBadgeVariant st = Destructive \<longleftrightarrow> st = SUSPENDED"
    by (cases st) simp_all
  ultimately show ?thesis by blast
qed

end
