(* ===== verification/Lifecycle.thy ===== *)
theory Lifecycle
  imports Borrowing Books Members
begin

text \<open>
  The borrowing-transaction lifecycle of the specification (section 4.1). Its code is
  the REST backend, which is not part of this repository; the client only calls
  \<open>/borrowing/borrow\<close> and \<open>/borrowing/return/{id}\<close> and renders the result. The
  model is therefore built from the specification, over the client's own record types:
  a store of \<open>BookType\<close> and \<open>Member\<close> records by identifier and a list of
  \<open>BorrowingTransaction\<close>s, with \<open>attemptBorrow\<close>, \<open>attemptReturn\<close>,
  \<open>classify\<close> and \<open>daysOverdue\<close>, a step relation over the store and the invariants
  every reachable store keeps. The loan period and the open-loan ceiling are
  configuration constants (the specification suggests 14 days and 5 loans).
\<close>

section \<open>Store, configuration and errors\<close>

record lib_config =
  loanPeriodDays :: nat
  maxOpenLoans :: nat

datatype lib_error =
    MemberNotEligible | BookUnavailable | BorrowLimitExceeded | AlreadyReturned
  | NotFound | ValidationError

record library =
  lib_books :: "ident \<rightharpoonup> BookType"
  lib_members :: "ident \<rightharpoonup> Member"
  lib_loans :: "BorrowingTransaction list"
  lib_next :: ident

definition lib_empty :: library where
  "lib_empty = \<lparr>lib_books = Map.empty, lib_members = Map.empty, lib_loans = [], lib_next = 1\<rparr>"

text \<open>Open loans (status \<open>BORROWED\<close>) of a member and of a book.\<close>

definition open_loans :: "library \<Rightarrow> ident \<Rightarrow> nat" where
  "open_loans L mid =
     length (filter (\<lambda>t. tx_member.memberId (member t) = mid \<and> status t = BORROWED) (lib_loans L))"

definition open_copies :: "library \<Rightarrow> ident \<Rightarrow> nat" where
  "open_copies L bid =
     length (filter (\<lambda>t. tx_book.bookId (book t) = bid \<and> status t = BORROWED) (lib_loans L))"

section \<open>Operations\<close>

definition new_loan ::
  "lib_config \<Rightarrow> ident \<Rightarrow> ident \<Rightarrow> BookType \<Rightarrow> ident \<Rightarrow> Member \<Rightarrow> timestamp \<Rightarrow> BorrowingTransaction" where
  "new_loan cfg tid bid b mid m now =
     \<lparr>transactionId = Some tid,
      book = \<lparr>tx_book.bookId = bid, tx_book.title = BookType.title b, tx_book.author = BookType.author b\<rparr>,
      member = \<lparr>tx_member.memberId = mid, tx_member.name = Member.name m, tx_member.email = Member.email m\<rparr>,
      borrowDate = now, dueDate = now + int (loanPeriodDays cfg) * ms_per_day,
      returnDate = None, status = BORROWED\<rparr>"

text \<open>
  \<open>attemptBorrow(book, member, transactions, now)\<close>: the checks in the
  specification's order; on success one new loan and one copy fewer, all at once.
\<close>

definition attemptBorrow :: "lib_config \<Rightarrow> ident \<Rightarrow> ident \<Rightarrow> timestamp \<Rightarrow> library \<Rightarrow> lib_error + library" where
  "attemptBorrow cfg bid mid now L =
     (case lib_books L bid of
        None \<Rightarrow> Inl NotFound
      | Some b \<Rightarrow>
          (case lib_members L mid of
             None \<Rightarrow> Inl NotFound
           | Some m \<Rightarrow>
               if membershipStatus m \<noteq> ACTIVE then Inl MemberNotEligible
               else if availableCopies b \<le> 0 then Inl BookUnavailable
               else if maxOpenLoans cfg \<le> open_loans L mid then Inl BorrowLimitExceeded
               else Inr (L\<lparr>lib_books := (lib_books L)(bid \<mapsto> b\<lparr>availableCopies := availableCopies b - 1\<rparr>),
                          lib_loans := lib_loans L @ [new_loan cfg (lib_next L) bid b mid m now],
                          lib_next := Suc (lib_next L)\<rparr>)))"

definition close_loan :: "ident \<Rightarrow> timestamp \<Rightarrow> BorrowingTransaction \<Rightarrow> BorrowingTransaction" where
  "close_loan tid now u =
     (if transactionId u = Some tid then u\<lparr>returnDate := Some now, status := RETURNED\<rparr> else u)"

text \<open>
  \<open>attemptReturn(transaction, now)\<close>: the loan is looked up by its id; only an open
  loan can be returned, which gives its copy back.
\<close>

definition attemptReturn :: "ident \<Rightarrow> timestamp \<Rightarrow> library \<Rightarrow> lib_error + library" where
  "attemptReturn tid now L =
     (case find (\<lambda>t. transactionId t = Some tid) (lib_loans L) of
        None \<Rightarrow> Inl NotFound
      | Some t \<Rightarrow>
          if status t \<noteq> BORROWED then Inl AlreadyReturned
          else
            let bid = tx_book.bookId (book t)
            in case lib_books L bid of
                 None \<Rightarrow> Inl NotFound
               | Some b \<Rightarrow>
                   Inr (L\<lparr>lib_books := (lib_books L)(bid \<mapsto> b\<lparr>availableCopies := availableCopies b + 1\<rparr>),
                          lib_loans := map (close_loan tid now) (lib_loans L)\<rparr>))"

text \<open>\<open>classify(transaction, now)\<close> and \<open>daysOverdue(transaction, now)\<close>.\<close>

definition classify :: "BorrowingTransaction \<Rightarrow> timestamp \<Rightarrow> tx_status" where
  "classify t now =
     (case returnDate t of
        Some _ \<Rightarrow> RETURNED
      | None \<Rightarrow> if status t = BORROWED \<and> dueDate t < now then OVERDUE else BORROWED)"

definition daysOverdue :: "BorrowingTransaction \<Rightarrow> timestamp \<Rightarrow> int" where
  "daysOverdue t now =
     (if classify t now = OVERDUE then max 0 (ceil_div (now - dueDate t) ms_per_day) else 0)"

text \<open>
  Creating a book or a member (the CRUD endpoints of section 6). A book must come with
  at least one copy, all of them available (\<open>ValidationError\<close> otherwise); it gets
  the next free identifier.
\<close>

definition addBook :: "BookType \<Rightarrow> library \<Rightarrow> lib_error + library" where
  "addBook b L =
     (if totalCopies b < 1 \<or> availableCopies b \<noteq> totalCopies b then Inl ValidationError
      else Inr (L\<lparr>lib_books := (lib_books L)(lib_next L \<mapsto> b\<lparr>BookType.bookId := Some (lib_next L)\<rparr>),
                 lib_next := Suc (lib_next L)\<rparr>))"

definition addMember :: "Member \<Rightarrow> library \<Rightarrow> lib_error + library" where
  "addMember m L =
     Inr (L\<lparr>lib_members := (lib_members L)(lib_next L \<mapsto> m\<lparr>Member.memberId := Some (lib_next L)\<rparr>),
            lib_next := Suc (lib_next L)\<rparr>)"

section \<open>Steps and reachable stores\<close>

inductive lib_step :: "lib_config \<Rightarrow> library \<Rightarrow> library \<Rightarrow> bool" for cfg where
  borrow: "attemptBorrow cfg bid mid now L = Inr L' \<Longrightarrow> lib_step cfg L L'"
| return: "attemptReturn tid now L = Inr L' \<Longrightarrow> lib_step cfg L L'"
| add_book: "addBook b L = Inr L' \<Longrightarrow> lib_step cfg L L'"
| add_member: "addMember m L = Inr L' \<Longrightarrow> lib_step cfg L L'"

inductive lib_reachable :: "lib_config \<Rightarrow> library \<Rightarrow> bool" for cfg where
  empty: "lib_reachable cfg lib_empty"
| step: "lib_reachable cfg L \<Longrightarrow> lib_step cfg L L' \<Longrightarrow> lib_reachable cfg L'"

inductive_cases lib_step_cases: "lib_step cfg L L'"

section \<open>The invariant\<close>

text \<open>
  Every stored book has its copies conserved (available plus lent equals total, and
  none negative); every loan names a stored book, carries a unique identifier below
  the next free one, is never stored as \<open>OVERDUE\<close>, and has a return date exactly
  when it is closed; every stored key is below the next free identifier; no member
  holds more open loans than the ceiling.
\<close>

definition copies_conserved :: "library \<Rightarrow> bool" where
  "copies_conserved L \<longleftrightarrow>
     (\<forall>bid b. lib_books L bid = Some b \<longrightarrow>
        0 \<le> availableCopies b \<and> availableCopies b + int (open_copies L bid) = totalCopies b)"

definition loans_wf :: "library \<Rightarrow> bool" where
  "loans_wf L \<longleftrightarrow>
     distinct (map transactionId (lib_loans L)) \<and>
     (\<forall>t \<in> set (lib_loans L).
        tx_book.bookId (book t) \<in> dom (lib_books L) \<and>
        (\<exists>i. transactionId t = Some i \<and> i < lib_next L) \<and>
        status t \<noteq> OVERDUE \<and> (returnDate t = None \<longleftrightarrow> status t = BORROWED))"

definition keys_below :: "library \<Rightarrow> bool" where
  "keys_below L \<longleftrightarrow>
     (\<forall>k \<in> dom (lib_books L). k < lib_next L) \<and> (\<forall>k \<in> dom (lib_members L). k < lib_next L)"

definition within_limit :: "lib_config \<Rightarrow> library \<Rightarrow> bool" where
  "within_limit cfg L \<longleftrightarrow> (\<forall>mid. open_loans L mid \<le> maxOpenLoans cfg)"

definition lib_inv :: "lib_config \<Rightarrow> library \<Rightarrow> bool" where
  "lib_inv cfg L \<longleftrightarrow> copies_conserved L \<and> loans_wf L \<and> keys_below L \<and> within_limit cfg L"

section \<open>An example library\<close>

text \<open>
  The configuration the specification suggests, one book with a single copy, one
  member, and the stores after creating them and after one loan.
\<close>

abbreviation demo_cfg :: lib_config where
  "demo_cfg \<equiv> \<lparr>loanPeriodDays = 14, maxOpenLoans = 5\<rparr>"

abbreviation demo_book :: BookType where
  "demo_book \<equiv> \<lparr>BookType.bookId = None, BookType.title = ''Dune'', BookType.author = ''Herbert'',
     genre = ''SF'', isbn = ''1'', yearPublished = 1965, BookType.availableCopies = 1, totalCopies = 1\<rparr>"

abbreviation demo_member :: "membershipStatus \<Rightarrow> Member" where
  "demo_member st \<equiv> \<lparr>Member.memberId = None, Member.name = ''Ann'', Member.email = ''ann@lib'',
     phone = ''1'', address = ''Main St'', membershipStatus = st, registrationDate = None\<rparr>"

abbreviation demo_store :: "membershipStatus \<Rightarrow> library" where
  "demo_store st \<equiv>
     \<lparr>lib_books = Map.empty(1 \<mapsto> demo_book\<lparr>BookType.bookId := Some 1\<rparr>),
      lib_members = Map.empty(2 \<mapsto> (demo_member st)\<lparr>Member.memberId := Some 2\<rparr>),
      lib_loans = [], lib_next = 3\<rparr>"

abbreviation demo_lent :: library where
  "demo_lent \<equiv>
     \<lparr>lib_books = Map.empty(1 \<mapsto> demo_book\<lparr>BookType.bookId := Some 1, BookType.availableCopies := 0\<rparr>),
      lib_members = Map.empty(2 \<mapsto> (demo_member ACTIVE)\<lparr>Member.memberId := Some 2\<rparr>),
      lib_loans = [new_loan demo_cfg 3 1 (demo_book\<lparr>BookType.bookId := Some 1\<rparr>) 2
                    ((demo_member ACTIVE)\<lparr>Member.memberId := Some 2\<rparr>) 0],
      lib_next = 4\<rparr>"

section \<open>Lemmas\<close>

subsection \<open>Borrowing\<close>

lemma attemptBorrow_Inr:
  "attemptBorrow cfg bid mid now L = Inr L' \<longleftrightarrow>
     (\<exists>b m. lib_books L bid = Some b \<and> lib_members L mid = Some m \<and> membershipStatus m = ACTIVE \<and>
        0 < availableCopies b \<and> open_loans L mid < maxOpenLoans cfg \<and>
        L' = L\<lparr>lib_books := (lib_books L)(bid \<mapsto> b\<lparr>availableCopies := availableCopies b - 1\<rparr>),
               lib_loans := lib_loans L @ [new_loan cfg (lib_next L) bid b mid m now],
               lib_next := Suc (lib_next L)\<rparr>)"
  by (auto simp: attemptBorrow_def split: option.splits if_splits)

lemma open_copies_borrow:
  assumes "attemptBorrow cfg bid mid now L = Inr L'"
  shows "open_copies L' x = open_copies L x + (if x = bid then 1 else 0)"
  using assms by (auto simp: attemptBorrow_Inr open_copies_def new_loan_def)

lemma open_loans_borrow:
  assumes "attemptBorrow cfg bid mid now L = Inr L'"
  shows "open_loans L' x = open_loans L x + (if x = mid then 1 else 0)"
  using assms by (auto simp: attemptBorrow_Inr open_loans_def new_loan_def)

lemma borrow_copies_conserved:
  assumes "copies_conserved L" and "attemptBorrow cfg bid mid now L = Inr L'"
  shows "copies_conserved L'"
  unfolding copies_conserved_def
proof (intro allI impI)
  fix x c assume c: "lib_books L' x = Some c"
  obtain b m where b: "lib_books L bid = Some b" and pos: "0 < availableCopies b"
    and L': "L' = L\<lparr>lib_books := (lib_books L)(bid \<mapsto> b\<lparr>availableCopies := availableCopies b - 1\<rparr>),
               lib_loans := lib_loans L @ [new_loan cfg (lib_next L) bid b mid m now],
               lib_next := Suc (lib_next L)\<rparr>"
    using assms(2) by (auto simp: attemptBorrow_Inr)
  show "0 \<le> availableCopies c \<and> availableCopies c + int (open_copies L' x) = totalCopies c"
  proof (cases "x = bid")
    case True
    with c L' have "c = b\<lparr>availableCopies := availableCopies b - 1\<rparr>" by simp
    with True b pos assms show ?thesis
      by (auto simp: open_copies_borrow copies_conserved_def)
  next
    case False
    with c L' have "lib_books L x = Some c" by simp
    with False assms show ?thesis by (auto simp: open_copies_borrow copies_conserved_def)
  qed
qed

lemma borrow_loans_wf:
  assumes "loans_wf L" and "attemptBorrow cfg bid mid now L = Inr L'"
  shows "loans_wf L'"
proof -
  obtain b m where b: "lib_books L bid = Some b"
    and L': "L' = L\<lparr>lib_books := (lib_books L)(bid \<mapsto> b\<lparr>availableCopies := availableCopies b - 1\<rparr>),
               lib_loans := lib_loans L @ [new_loan cfg (lib_next L) bid b mid m now],
               lib_next := Suc (lib_next L)\<rparr>"
    using assms(2) by (auto simp: attemptBorrow_Inr)
  have fresh: "Some (lib_next L) \<notin> set (map transactionId (lib_loans L))"
    using assms(1) by (fastforce simp: loans_wf_def)
  show ?thesis
    using assms(1) fresh b unfolding L' loans_wf_def
    by (auto simp: new_loan_def less_Suc_eq)
qed

lemma borrow_keys_below:
  assumes "keys_below L" and "attemptBorrow cfg bid mid now L = Inr L'"
  shows "keys_below L'"
  using assms by (auto simp: attemptBorrow_Inr keys_below_def less_Suc_eq dom_def split: if_splits)

lemma borrow_within_limit:
  assumes "within_limit cfg L" and "attemptBorrow cfg bid mid now L = Inr L'"
  shows "within_limit cfg L'"
proof -
  have "open_loans L mid < maxOpenLoans cfg" using assms(2) by (auto simp: attemptBorrow_Inr)
  then show ?thesis using assms by (auto simp: within_limit_def open_loans_borrow)
qed

subsection \<open>Returning\<close>

text \<open>The loan a return finds is the only one with its identifier.\<close>

lemma find_unique_split:
  assumes "distinct (map transactionId xs)" and "find (\<lambda>t. transactionId t = Some tid) xs = Some t"
  shows "\<exists>ys zs. xs = ys @ t # zs \<and> transactionId t = Some tid \<and>
           (\<forall>u \<in> set ys \<union> set zs. transactionId u \<noteq> Some tid)"
proof -
  from assms(2) have t: "t \<in> set xs" "transactionId t = Some tid"
    by (auto simp: find_Some_iff nth_mem)
  then obtain ys zs where xs: "xs = ys @ t # zs" by (meson split_list)
  with assms(1) t have "\<forall>u \<in> set ys \<union> set zs. transactionId u \<noteq> Some tid"
    by (auto simp: image_iff)
  with xs t show ?thesis by blast
qed

lemma map_close_loan_split:
  assumes "\<forall>u \<in> set ys \<union> set zs. transactionId u \<noteq> Some tid" and "transactionId t = Some tid"
  shows "map (close_loan tid now) (ys @ t # zs) =
           ys @ t\<lparr>returnDate := Some now, status := RETURNED\<rparr> # zs"
proof -
  have "map (close_loan tid now) ys = ys" and "map (close_loan tid now) zs = zs"
    using assms(1) by (auto simp: close_loan_def intro: map_idI)
  with assms(2) show ?thesis by (simp add: close_loan_def)
qed

lemma attemptReturn_Inr:
  assumes "loans_wf L"
  shows "attemptReturn tid now L = Inr L' \<longleftrightarrow>
     (\<exists>ys t zs b. lib_loans L = ys @ t # zs \<and> transactionId t = Some tid \<and>
        (\<forall>u \<in> set ys \<union> set zs. transactionId u \<noteq> Some tid) \<and> status t = BORROWED \<and>
        lib_books L (tx_book.bookId (book t)) = Some b \<and>
        L' = L\<lparr>lib_books := (lib_books L)(tx_book.bookId (book t) \<mapsto> b\<lparr>availableCopies := availableCopies b + 1\<rparr>),
               lib_loans := ys @ t\<lparr>returnDate := Some now, status := RETURNED\<rparr> # zs\<rparr>)"
  (is "?l \<longleftrightarrow> ?r")
proof
  assume r: "attemptReturn tid now L = Inr L'"
  then obtain t where f: "find (\<lambda>t. transactionId t = Some tid) (lib_loans L) = Some t"
    by (auto simp: attemptReturn_def split: option.splits)
  from assms have "distinct (map transactionId (lib_loans L))" by (simp add: loans_wf_def)
  from find_unique_split [OF this f] obtain ys zs where
    sp: "lib_loans L = ys @ t # zs" "transactionId t = Some tid"
        "\<forall>u \<in> set ys \<union> set zs. transactionId u \<noteq> Some tid" by blast
  have m: "map (close_loan tid now) (lib_loans L) =
      ys @ t\<lparr>returnDate := Some now, status := RETURNED\<rparr> # zs"
    by (simp only: sp(1)) (rule map_close_loan_split [OF sp(3,2)])
  from r f obtain b where st: "status t = BORROWED"
    and b: "lib_books L (tx_book.bookId (book t)) = Some b"
    and L': "L' = L\<lparr>lib_books := (lib_books L)(tx_book.bookId (book t) \<mapsto> b\<lparr>availableCopies := availableCopies b + 1\<rparr>),
               lib_loans := map (close_loan tid now) (lib_loans L)\<rparr>"
    by (auto simp: attemptReturn_def Let_def split: option.splits if_splits)
  from L' m have "L' = L\<lparr>lib_books := (lib_books L)(tx_book.bookId (book t) \<mapsto> b\<lparr>availableCopies := availableCopies b + 1\<rparr>),
               lib_loans := ys @ t\<lparr>returnDate := Some now, status := RETURNED\<rparr> # zs\<rparr>"
    by (simp only:)
  with sp st b show ?r by blast
next
  assume "\<exists>ys t zs b. lib_loans L = ys @ t # zs \<and> transactionId t = Some tid \<and>
        (\<forall>u \<in> set ys \<union> set zs. transactionId u \<noteq> Some tid) \<and> status t = BORROWED \<and>
        lib_books L (tx_book.bookId (book t)) = Some b \<and>
        L' = L\<lparr>lib_books := (lib_books L)(tx_book.bookId (book t) \<mapsto> b\<lparr>availableCopies := availableCopies b + 1\<rparr>),
               lib_loans := ys @ t\<lparr>returnDate := Some now, status := RETURNED\<rparr> # zs\<rparr>"
  then obtain ys t zs b where h: "lib_loans L = ys @ t # zs" "transactionId t = Some tid"
        "\<forall>u \<in> set ys \<union> set zs. transactionId u \<noteq> Some tid" "status t = BORROWED"
        "lib_books L (tx_book.bookId (book t)) = Some b"
        "L' = L\<lparr>lib_books := (lib_books L)(tx_book.bookId (book t) \<mapsto> b\<lparr>availableCopies := availableCopies b + 1\<rparr>),
               lib_loans := ys @ t\<lparr>returnDate := Some now, status := RETURNED\<rparr> # zs\<rparr>" by blast
  have "find (\<lambda>t. transactionId t = Some tid) (lib_loans L) = Some t"
    using h(1-3) by (simp add: find_split_Some)
  moreover have "map (close_loan tid now) (lib_loans L) =
      ys @ t\<lparr>returnDate := Some now, status := RETURNED\<rparr> # zs"
    by (simp only: h(1)) (rule map_close_loan_split [OF h(3,2)])
  ultimately show "attemptReturn tid now L = Inr L'"
    using h(4-6) by (simp add: attemptReturn_def)
qed

lemma return_counts:
  assumes "loans_wf L" and "attemptReturn tid now L = Inr L'"
  obtains t b where "t \<in> set (lib_loans L)" "status t = BORROWED"
    "lib_books L (tx_book.bookId (book t)) = Some b"
    "lib_books L' = (lib_books L)(tx_book.bookId (book t) \<mapsto> b\<lparr>availableCopies := availableCopies b + 1\<rparr>)"
    "\<And>x. open_copies L x = open_copies L' x + (if x = tx_book.bookId (book t) then 1 else 0)"
    "\<And>x. open_loans L x = open_loans L' x + (if x = tx_member.memberId (member t) then 1 else 0)"
    "map transactionId (lib_loans L') = map transactionId (lib_loans L)"
    "lib_members L' = lib_members L" "lib_next L' = lib_next L"
    "set (lib_loans L') \<subseteq> set (lib_loans L) \<union> {t\<lparr>returnDate := Some now, status := RETURNED\<rparr>}"
proof -
  from assms obtain ys t zs b where h: "lib_loans L = ys @ t # zs" "status t = BORROWED"
    "lib_books L (tx_book.bookId (book t)) = Some b"
    "L' = L\<lparr>lib_books := (lib_books L)(tx_book.bookId (book t) \<mapsto> b\<lparr>availableCopies := availableCopies b + 1\<rparr>),
               lib_loans := ys @ t\<lparr>returnDate := Some now, status := RETURNED\<rparr> # zs\<rparr>"
    by (auto simp: attemptReturn_Inr)
  show ?thesis
    by (rule that [of t b]) (use h in \<open>auto simp: open_copies_def open_loans_def\<close>)
qed

lemma return_lib_inv:
  assumes "lib_inv cfg L" and "attemptReturn tid now L = Inr L'"
  shows "lib_inv cfg L'"
proof -
  from assms(1) have wf: "loans_wf L" by (simp add: lib_inv_def)
  obtain t b where t: "t \<in> set (lib_loans L)" "status t = BORROWED"
    and b: "lib_books L (tx_book.bookId (book t)) = Some b"
    and bk: "lib_books L' = (lib_books L)(tx_book.bookId (book t) \<mapsto> b\<lparr>availableCopies := availableCopies b + 1\<rparr>)"
    and oc: "\<And>x. open_copies L x = open_copies L' x + (if x = tx_book.bookId (book t) then 1 else 0)"
    and ol: "\<And>x. open_loans L x = open_loans L' x + (if x = tx_member.memberId (member t) then 1 else 0)"
    and ids: "map transactionId (lib_loans L') = map transactionId (lib_loans L)"
    and same: "lib_members L' = lib_members L" "lib_next L' = lib_next L"
    and sub: "set (lib_loans L') \<subseteq> set (lib_loans L) \<union> {t\<lparr>returnDate := Some now, status := RETURNED\<rparr>}"
    using return_counts [OF wf assms(2)] by blast
  have dom_eq: "dom (lib_books L') = dom (lib_books L)" using bk b by auto
  have "copies_conserved L'"
    unfolding copies_conserved_def
  proof (intro allI impI)
    fix x c assume c: "lib_books L' x = Some c"
    show "0 \<le> availableCopies c \<and> availableCopies c + int (open_copies L' x) = totalCopies c"
    proof (cases "x = tx_book.bookId (book t)")
      case True
      with c bk have "c = b\<lparr>availableCopies := availableCopies b + 1\<rparr>" by simp
      have "0 \<le> availableCopies b \<and> availableCopies b + int (open_copies L x) = totalCopies b"
        using assms(1) b True by (auto simp: lib_inv_def copies_conserved_def)
      with True \<open>c = _\<close> oc [of x] show ?thesis by simp
    next
      case False
      with c bk have "lib_books L x = Some c" by simp
      then have "0 \<le> availableCopies c \<and> availableCopies c + int (open_copies L x) = totalCopies c"
        using assms(1) by (auto simp: lib_inv_def copies_conserved_def)
      with False oc [of x] show ?thesis by simp
    qed
  qed
  moreover have "loans_wf L'"
  proof -
    have "distinct (map transactionId (lib_loans L'))" using wf ids by (simp add: loans_wf_def)
    moreover have "\<forall>u \<in> set (lib_loans L').
        tx_book.bookId (book u) \<in> dom (lib_books L') \<and> (\<exists>i. transactionId u = Some i \<and> i < lib_next L') \<and>
        status u \<noteq> OVERDUE \<and> (returnDate u = None \<longleftrightarrow> status u = BORROWED)"
    proof
      fix u assume "u \<in> set (lib_loans L')"
      with sub have "u \<in> set (lib_loans L) \<or> u = t\<lparr>returnDate := Some now, status := RETURNED\<rparr>"
        by blast
      then show "tx_book.bookId (book u) \<in> dom (lib_books L') \<and>
          (\<exists>i. transactionId u = Some i \<and> i < lib_next L') \<and>
          status u \<noteq> OVERDUE \<and> (returnDate u = None \<longleftrightarrow> status u = BORROWED)"
      proof
        assume "u \<in> set (lib_loans L)"
        with wf dom_eq same show ?thesis by (simp add: loans_wf_def)
      next
        assume u: "u = t\<lparr>returnDate := Some now, status := RETURNED\<rparr>"
        from wf t(1) have "tx_book.bookId (book t) \<in> dom (lib_books L)"
          and "\<exists>i. transactionId t = Some i \<and> i < lib_next L"
          by (auto simp: loans_wf_def)
        with u dom_eq same show ?thesis by simp
      qed
    qed
    ultimately show ?thesis by (simp add: loans_wf_def)
  qed
  moreover have "keys_below L'" using assms(1) dom_eq same by (simp add: lib_inv_def keys_below_def)
  moreover have "within_limit cfg L'"
    using assms(1) ol by (auto simp: lib_inv_def within_limit_def intro: le_trans [OF le_add1])
  ultimately show ?thesis by (simp add: lib_inv_def)
qed

lemma borrow_lib_inv:
  assumes "lib_inv cfg L" and "attemptBorrow cfg bid mid now L = Inr L'"
  shows "lib_inv cfg L'"
  using assms(1) borrow_copies_conserved [OF _ assms(2)] borrow_loans_wf [OF _ assms(2)]
    borrow_keys_below [OF _ assms(2)] borrow_within_limit [OF _ assms(2)]
  by (simp add: lib_inv_def)

subsection \<open>Creating books and members\<close>

lemma loans_wf_next:
  assumes "loans_wf L" and "lib_loans L' = lib_loans L"
    and "dom (lib_books L) \<subseteq> dom (lib_books L')" and "lib_next L \<le> lib_next L'"
  shows "loans_wf L'"
proof -
  have "\<forall>t \<in> set (lib_loans L').
      tx_book.bookId (book t) \<in> dom (lib_books L') \<and> (\<exists>i. transactionId t = Some i \<and> i < lib_next L') \<and>
      status t \<noteq> OVERDUE \<and> (returnDate t = None \<longleftrightarrow> status t = BORROWED)"
  proof
    fix t assume "t \<in> set (lib_loans L')"
    with assms(1,2) have h: "tx_book.bookId (book t) \<in> dom (lib_books L)"
      "\<exists>i. transactionId t = Some i \<and> i < lib_next L" "status t \<noteq> OVERDUE"
      "returnDate t = None \<longleftrightarrow> status t = BORROWED"
      by (auto simp: loans_wf_def)
    from h(2) assms(4) have "\<exists>i. transactionId t = Some i \<and> i < lib_next L'"
      by (auto intro: less_le_trans)
    with h(1,3,4) assms(3) show "tx_book.bookId (book t) \<in> dom (lib_books L') \<and>
        (\<exists>i. transactionId t = Some i \<and> i < lib_next L') \<and>
        status t \<noteq> OVERDUE \<and> (returnDate t = None \<longleftrightarrow> status t = BORROWED)" by blast
  qed
  with assms(1,2) show ?thesis by (simp add: loans_wf_def)
qed

lemma keys_below_next:
  assumes "keys_below L" and "dom (lib_books L') \<subseteq> insert (lib_next L) (dom (lib_books L))"
    and "dom (lib_members L') \<subseteq> insert (lib_next L) (dom (lib_members L))"
    and "lib_next L' = Suc (lib_next L)"
  shows "keys_below L'"
  unfolding keys_below_def
proof (intro conjI ballI)
  fix k assume "k \<in> dom (lib_books L')"
  with assms(2) have "k = lib_next L \<or> k \<in> dom (lib_books L)" by blast
  then have "k < Suc (lib_next L)"
  proof
    assume "k \<in> dom (lib_books L)"
    with assms(1) have "k < lib_next L" by (simp add: keys_below_def)
    then show ?thesis by simp
  qed simp
  with assms(4) show "k < lib_next L'" by simp
next
  fix k assume "k \<in> dom (lib_members L')"
  with assms(3) have "k = lib_next L \<or> k \<in> dom (lib_members L)" by blast
  then have "k < Suc (lib_next L)"
  proof
    assume "k \<in> dom (lib_members L)"
    with assms(1) have "k < lib_next L" by (simp add: keys_below_def)
    then show ?thesis by simp
  qed simp
  with assms(4) show "k < lib_next L'" by simp
qed

lemma addBook_lib_inv:
  assumes "lib_inv cfg L" and "addBook b L = Inr L'"
  shows "lib_inv cfg L'"
proof -
  let ?n = "lib_next L"
  have ok: "1 \<le> totalCopies b" "availableCopies b = totalCopies b"
    and L': "L' = L\<lparr>lib_books := (lib_books L)(?n \<mapsto> b\<lparr>BookType.bookId := Some ?n\<rparr>),
                      lib_next := Suc ?n\<rparr>"
    using assms(2) by (auto simp: addBook_def split: if_splits)
  have oc: "open_copies L' x = open_copies L x" for x by (simp add: L' open_copies_def)
  have "open_copies L ?n = 0"
    using assms(1) by (fastforce simp: lib_inv_def loans_wf_def keys_below_def open_copies_def filter_empty_conv)
  have "copies_conserved L'"
    unfolding copies_conserved_def
  proof (intro allI impI)
    fix x c assume c: "lib_books L' x = Some c"
    show "0 \<le> availableCopies c \<and> availableCopies c + int (open_copies L' x) = totalCopies c"
    proof (cases "x = ?n")
      case True
      with c L' have "c = b\<lparr>BookType.bookId := Some ?n\<rparr>" by simp
      with True ok oc \<open>open_copies L ?n = 0\<close> show ?thesis by simp
    next
      case False
      with c L' have "lib_books L x = Some c" by simp
      with assms(1) oc show ?thesis by (simp add: lib_inv_def copies_conserved_def)
    qed
  qed
  moreover have "loans_wf L'"
  proof (rule loans_wf_next [of L])
    show "loans_wf L" using assms(1) by (simp add: lib_inv_def)
  qed (auto simp: L')
  moreover have "keys_below L'"
  proof (rule keys_below_next [of L])
    show "keys_below L" using assms(1) by (simp add: lib_inv_def)
  qed (auto simp: L')
  moreover have "within_limit cfg L'"
    using assms(1) by (simp add: L' lib_inv_def within_limit_def open_loans_def)
  ultimately show ?thesis by (simp add: lib_inv_def)
qed

lemma addMember_lib_inv:
  assumes "lib_inv cfg L" and "addMember m L = Inr L'"
  shows "lib_inv cfg L'"
proof -
  have L': "L' = L\<lparr>lib_members := (lib_members L)(lib_next L \<mapsto> m\<lparr>Member.memberId := Some (lib_next L)\<rparr>),
                    lib_next := Suc (lib_next L)\<rparr>"
    using assms(2) by (simp add: addMember_def)
  have "copies_conserved L'" "within_limit cfg L'"
    using assms(1) by (simp_all add: L' lib_inv_def copies_conserved_def within_limit_def
        open_copies_def open_loans_def)
  moreover have "loans_wf L'"
  proof (rule loans_wf_next [of L])
    show "loans_wf L" using assms(1) by (simp add: lib_inv_def)
  qed (auto simp: L')
  moreover have "keys_below L'"
  proof (rule keys_below_next [of L])
    show "keys_below L" using assms(1) by (simp add: lib_inv_def)
  qed (auto simp: L')
  ultimately show ?thesis by (simp add: lib_inv_def)
qed

lemma lib_step_inv: "lib_step cfg L L' \<Longrightarrow> lib_inv cfg L \<Longrightarrow> lib_inv cfg L'"
  by (induction rule: lib_step.induct)
     (auto intro: borrow_lib_inv return_lib_inv addBook_lib_inv addMember_lib_inv)

lemma lib_empty_inv: "lib_inv cfg lib_empty"
  by (simp add: lib_inv_def lib_empty_def copies_conserved_def loans_wf_def keys_below_def
      within_limit_def open_loans_def)


lemma keys_below_finite: "keys_below L \<Longrightarrow> finite (dom (lib_books L))"
  by (rule finite_subset [of _ "{..<lib_next L}"]) (auto simp: keys_below_def)

section \<open>Properties\<close>

text \<open>
  C4: every store reachable from the empty one by borrows, returns and creations keeps
  the invariant: copies conserved and never negative, loans well formed with unique
  identifiers, keys fresh, and no member above the open-loan ceiling.
\<close>

theorem lib_reachable_inv: "lib_reachable cfg L \<Longrightarrow> lib_inv cfg L"
  by (induction rule: lib_reachable.induct) (auto intro: lib_empty_inv lib_step_inv)

text \<open>
  C5: borrowing and then returning the new loan succeeds and gives back the book store,
  the open-loan counts of every member and the lent copies of every book as they were.
\<close>

theorem borrow_return_roundtrip:
  assumes "lib_inv cfg L" and "attemptBorrow cfg bid mid now L = Inr L1"
  shows "\<exists>L2. attemptReturn (lib_next L) now' L1 = Inr L2 \<and>
              lib_books L2 = lib_books L \<and> open_loans L2 = open_loans L \<and> open_copies L2 = open_copies L"
proof -
  obtain b m where b: "lib_books L bid = Some b"
    and L1: "L1 = L\<lparr>lib_books := (lib_books L)(bid \<mapsto> b\<lparr>availableCopies := availableCopies b - 1\<rparr>),
               lib_loans := lib_loans L @ [new_loan cfg (lib_next L) bid b mid m now],
               lib_next := Suc (lib_next L)\<rparr>"
    using assms(2) by (auto simp: attemptBorrow_Inr)
  let ?t = "new_loan cfg (lib_next L) bid b mid m now"
  let ?L2 = "L1\<lparr>lib_books := (lib_books L1)(bid \<mapsto> b\<lparr>availableCopies := availableCopies b - 1 + 1\<rparr>),
                lib_loans := lib_loans L @ [?t\<lparr>returnDate := Some now', status := RETURNED\<rparr>]\<rparr>"
  have wf1: "loans_wf L1" using borrow_lib_inv [OF assms] by (simp add: lib_inv_def)
  have fresh: "\<forall>u \<in> set (lib_loans L) \<union> set []. transactionId u \<noteq> Some (lib_next L)"
    using assms(1) by (fastforce simp: lib_inv_def loans_wf_def)
  have "attemptReturn (lib_next L) now' L1 = Inr ?L2"
    unfolding attemptReturn_Inr [OF wf1]
    using fresh by (intro exI [of _ "lib_loans L"] exI [of _ ?t] exI [of _ "[]"])
      (simp add: L1 new_loan_def)
  moreover have "lib_books ?L2 = lib_books L" using b by (auto simp: L1)
  moreover have "open_loans ?L2 = open_loans L" and "open_copies ?L2 = open_copies L"
    by (simp_all add: L1 open_loans_def open_copies_def new_loan_def fun_eq_iff)
  ultimately show ?thesis by blast
qed

text \<open>
  C14: with one copy left, a borrow succeeds and leaves none; a second borrow of that book
  by any active member then fails with \<open>BookUnavailable\<close>.
\<close>

theorem last_copy_then_unavailable:
  assumes "attemptBorrow cfg bid mid now L = Inr L1" and "lib_books L bid = Some b"
    and "availableCopies b = 1" and "lib_members L1 mid' = Some m'" and "membershipStatus m' = ACTIVE"
  shows "(\<exists>b1. lib_books L1 bid = Some b1 \<and> availableCopies b1 = 0) \<and>
         attemptBorrow cfg bid mid' now' L1 = Inl BookUnavailable"
proof -
  obtain m where L1: "L1 = L\<lparr>lib_books := (lib_books L)(bid \<mapsto> b\<lparr>availableCopies := 0\<rparr>),
               lib_loans := lib_loans L @ [new_loan cfg (lib_next L) bid b mid m now],
               lib_next := Suc (lib_next L)\<rparr>"
    using assms(1-3) by (auto simp: attemptBorrow_Inr)
  then have "lib_books L1 bid = Some (b\<lparr>availableCopies := 0\<rparr>)" by simp
  with assms(4,5) show ?thesis by (simp add: attemptBorrow_def)
qed

text \<open>
  C15: a member who is not \<open>ACTIVE\<close> (suspended or expired) cannot borrow: the attempt
  fails with \<open>MemberNotEligible\<close> and yields no new store.
\<close>

theorem ineligible_member_rejected:
  assumes "lib_books L bid = Some b" and "lib_members L mid = Some m"
    and "membershipStatus m \<noteq> ACTIVE"
  shows "attemptBorrow cfg bid mid now L = Inl MemberNotEligible"
  using assms by (simp add: attemptBorrow_def)

text \<open>
  C16: returning the same loan twice fails the second time with \<open>AlreadyReturned\<close>.
\<close>

theorem return_twice_rejected:
  assumes "loans_wf L" and "attemptReturn tid now L = Inr L1"
  shows "attemptReturn tid now' L1 = Inl AlreadyReturned"
proof -
  from assms obtain ys t zs where h: "transactionId t = Some tid"
    "\<forall>u \<in> set ys \<union> set zs. transactionId u \<noteq> Some tid"
    "lib_loans L1 = ys @ t\<lparr>returnDate := Some now, status := RETURNED\<rparr> # zs"
    by (auto simp: attemptReturn_Inr)
  then have "find (\<lambda>u. transactionId u = Some tid) (lib_loans L1) =
      Some (t\<lparr>returnDate := Some now, status := RETURNED\<rparr>)"
    by (simp add: find_split_Some)
  then show ?thesis by (simp add: attemptReturn_def)
qed

section \<open>Witnesses\<close>

lemma demo_store_reachable: "lib_reachable demo_cfg (demo_store ACTIVE)"
proof -
  have "addBook demo_book lib_empty =
      Inr \<lparr>lib_books = Map.empty(1 \<mapsto> demo_book\<lparr>BookType.bookId := Some 1\<rparr>),
           lib_members = Map.empty, lib_loans = [], lib_next = 2\<rparr>"
    by (simp add: addBook_def lib_empty_def)
  moreover have "addMember (demo_member ACTIVE)
      \<lparr>lib_books = Map.empty(1 \<mapsto> demo_book\<lparr>BookType.bookId := Some 1\<rparr>),
       lib_members = Map.empty, lib_loans = [], lib_next = 2\<rparr> = Inr (demo_store ACTIVE)"
    by (simp add: addMember_def)
  ultimately show ?thesis
    by (blast intro: lib_reachable.step lib_reachable.empty lib_step.add_book lib_step.add_member)
qed

lemma demo_store_inv: "lib_inv demo_cfg (demo_store ACTIVE)"
proof -
  have "lib_inv demo_cfg \<lparr>lib_books = Map.empty(1 \<mapsto> demo_book\<lparr>BookType.bookId := Some 1\<rparr>),
           lib_members = Map.empty, lib_loans = [], lib_next = 2\<rparr>"
    by (rule addBook_lib_inv [OF lib_empty_inv, where b = demo_book]) (simp add: addBook_def lib_empty_def)
  then show ?thesis by (rule addMember_lib_inv [where m = "demo_member ACTIVE"]) (simp add: addMember_def)
qed

lemma demo_borrow: "attemptBorrow demo_cfg 1 2 0 (demo_store ACTIVE) = Inr demo_lent"
  by (simp add: attemptBorrow_def open_loans_def)

theorem lib_reachable_inv_witness:
  "lib_reachable demo_cfg (demo_store ACTIVE) \<and> lib_inv demo_cfg (demo_store ACTIVE)"
  using demo_store_reachable lib_reachable_inv [OF demo_store_reachable] by blast

theorem borrow_return_roundtrip_witness:
  "lib_inv demo_cfg (demo_store ACTIVE) \<and>
   attemptBorrow demo_cfg 1 2 0 (demo_store ACTIVE) = Inr demo_lent \<and>
   (\<exists>L2. attemptReturn 3 1728000000 demo_lent = Inr L2 \<and> lib_books L2 = lib_books (demo_store ACTIVE))"
proof -
  from borrow_return_roundtrip [OF demo_store_inv demo_borrow, of 1728000000]
  obtain L2 where "attemptReturn (lib_next (demo_store ACTIVE)) 1728000000 demo_lent = Inr L2"
    and "lib_books L2 = lib_books (demo_store ACTIVE)" by blast
  then have "attemptReturn 3 1728000000 demo_lent = Inr L2 \<and> lib_books L2 = lib_books (demo_store ACTIVE)"
    by simp
  with demo_store_inv demo_borrow show ?thesis by blast
qed

theorem last_copy_then_unavailable_witness:
  "attemptBorrow demo_cfg 1 2 0 (demo_store ACTIVE) = Inr demo_lent \<and>
   attemptBorrow demo_cfg 1 2 86400000 demo_lent = Inl BookUnavailable"
  using demo_borrow last_copy_then_unavailable [OF demo_borrow, of "demo_book\<lparr>BookType.bookId := Some 1\<rparr>"
      2 "(demo_member ACTIVE)\<lparr>Member.memberId := Some 2\<rparr>" 86400000]
  by simp

theorem ineligible_member_rejected_witness:
  "attemptBorrow demo_cfg 1 2 0 (demo_store SUSPENDED) = Inl MemberNotEligible"
  by (rule ineligible_member_rejected [where b = "demo_book\<lparr>BookType.bookId := Some 1\<rparr>"
      and m = "(demo_member SUSPENDED)\<lparr>Member.memberId := Some 2\<rparr>"]) simp_all

theorem return_twice_rejected_witness:
  "loans_wf demo_lent \<and> (\<exists>L1. attemptReturn 3 1728000000 demo_lent = Inr L1 \<and>
     attemptReturn 3 1814400000 L1 = Inl AlreadyReturned)"
proof -
  have wf: "loans_wf demo_lent"
    using borrow_lib_inv [OF demo_store_inv demo_borrow] by (simp add: lib_inv_def)
  obtain L1 where r: "attemptReturn 3 1728000000 demo_lent = Inr L1"
    by (simp add: attemptReturn_def new_loan_def)
  show ?thesis using wf r return_twice_rejected [OF wf r, of 1814400000] by blast
qed

end
