(* ===== verification/Race.thy ===== *)
theory Race
  imports Lifecycle
begin

text \<open>
  The calling layer of the specification (section 5 and the design notes): clients read
  a snapshot of the store, run the borrow checks on it, and then commit. A schedule is
  a list of reads and commits of numbered clients in any interleaving. The scheduler is
  parametrised by the store's commit, and two commits are modelled: the read-modify-
  write the original performs, which writes back the book as the snapshot computed it,
  and the conditional decrement the design notes ask for, which decrements the store's
  own copy count only if it is still positive.
\<close>

section \<open>Clients and the scheduler\<close>

type_synonym commit_fn = "ident \<Rightarrow> ident \<Rightarrow> timestamp \<Rightarrow> library \<Rightarrow> library \<Rightarrow> lib_error + library"

record race_sys =
  store :: library
  snapshot :: "nat \<Rightarrow> library option"

datatype client_op = ReadSnapshot nat | CommitBorrow nat ident ident timestamp

text \<open>
  A commit needs a snapshot; it consumes it whether or not the store accepts it. The
  commit gets the book, the member, the time, the client's snapshot and the store.
\<close>

fun race_step :: "commit_fn \<Rightarrow> client_op \<Rightarrow> race_sys \<Rightarrow> race_sys" where
  "race_step commit (ReadSnapshot c) s = s\<lparr>snapshot := (snapshot s)(c \<mapsto> store s)\<rparr>"
| "race_step commit (CommitBorrow c bid mid now) s =
     (case snapshot s c of
        None \<Rightarrow> s
      | Some snap \<Rightarrow>
          (case commit bid mid now snap (store s) of
             Inl _ \<Rightarrow> s\<lparr>snapshot := (snapshot s)(c := None)\<rparr>
           | Inr S' \<Rightarrow> s\<lparr>store := S', snapshot := (snapshot s)(c := None)\<rparr>))"

section \<open>The two commits\<close>

text \<open>
  Read-modify-write: the checks of \<open>attemptBorrow\<close> on the snapshot, then the book as
  the snapshot computed it and a new loan (numbered by the store) are written.
\<close>

definition rmw_commit :: "lib_config \<Rightarrow> commit_fn" where
  "rmw_commit cfg bid mid now snap S =
     (case attemptBorrow cfg bid mid now snap of
        Inl e \<Rightarrow> Inl e
      | Inr snap' \<Rightarrow>
          Inr (S\<lparr>lib_books := (lib_books S)(bid := lib_books snap' bid),
                 lib_loans := lib_loans S @
                   [new_loan cfg (lib_next S) bid (the (lib_books snap bid)) mid (the (lib_members snap mid)) now],
                 lib_next := Suc (lib_next S)\<rparr>))"

text \<open>
  Conditional decrement: the same checks on the snapshot, then the store decrements its
  own copy count only if it is positive, and refuses the loan otherwise.
\<close>

definition cas_commit :: "lib_config \<Rightarrow> commit_fn" where
  "cas_commit cfg bid mid now snap S =
     (case attemptBorrow cfg bid mid now snap of
        Inl e \<Rightarrow> Inl e
      | Inr _ \<Rightarrow>
          (case lib_books S bid of
             None \<Rightarrow> Inl NotFound
           | Some b \<Rightarrow>
               if availableCopies b \<le> 0 then Inl BookUnavailable
               else Inr (S\<lparr>lib_books := (lib_books S)(bid \<mapsto> b\<lparr>availableCopies := availableCopies b - 1\<rparr>),
                          lib_loans := lib_loans S @ [new_loan cfg (lib_next S) bid b mid (the (lib_members snap mid)) now],
                          lib_next := Suc (lib_next S)\<rparr>)))"

text \<open>The part of the invariant a commit is responsible for, whatever the snapshot.\<close>

definition inventory_ok :: "library \<Rightarrow> bool" where
  "inventory_ok L \<longleftrightarrow> copies_conserved L \<and> loans_wf L \<and> keys_below L"

text \<open>Schedules start from no snapshots.\<close>

abbreviation race_start :: "library \<Rightarrow> race_sys" where
  "race_start S \<equiv> \<lparr>store = S, snapshot = Map.empty\<rparr>"

section \<open>Lemmas\<close>

text \<open>A commit that keeps a property of the store keeps it under every schedule.\<close>

lemma race_fold_store:
  assumes "\<And>bid mid now snap S S'. P S \<Longrightarrow> commit bid mid now snap S = Inr S' \<Longrightarrow> P S'"
  shows "P (store s) \<Longrightarrow> P (store (fold (race_step commit) ops s))"
proof (induction ops arbitrary: s)
  case Nil
  then show ?case by simp
next
  case (Cons op ops)
  have "P (store (race_step commit op s))"
    using Cons.prems assms by (cases op) (auto split: option.splits sum.splits)
  then show ?case using Cons.IH by simp
qed

lemma cas_commit_Inr:
  assumes "cas_commit cfg bid mid now snap S = Inr S'"
  obtains b m where "lib_books S bid = Some b" and "0 < availableCopies b"
    and "S' = S\<lparr>lib_books := (lib_books S)(bid \<mapsto> b\<lparr>availableCopies := availableCopies b - 1\<rparr>),
                lib_loans := lib_loans S @ [new_loan cfg (lib_next S) bid b mid m now],
                lib_next := Suc (lib_next S)\<rparr>"
  using assms by (auto simp: cas_commit_def not_le split: sum.splits option.splits if_splits)

lemma cas_commit_inventory:
  assumes "inventory_ok S" and "cas_commit cfg bid mid now snap S = Inr S'"
  shows "inventory_ok S'"
proof -
  obtain b m where b: "lib_books S bid = Some b" and pos: "0 < availableCopies b"
    and S': "S' = S\<lparr>lib_books := (lib_books S)(bid \<mapsto> b\<lparr>availableCopies := availableCopies b - 1\<rparr>),
                lib_loans := lib_loans S @ [new_loan cfg (lib_next S) bid b mid m now],
                lib_next := Suc (lib_next S)\<rparr>"
    using assms(2) by (rule cas_commit_Inr)
  have oc: "open_copies S' x = open_copies S x + (if x = bid then 1 else 0)" for x
    by (simp add: S' open_copies_def new_loan_def)
  have bs: "lib_books S' = (lib_books S)(bid \<mapsto> b\<lparr>availableCopies := availableCopies b - 1\<rparr>)"
    by (simp add: S')
  have cc: "copies_conserved S'"
    using assms(1) b pos by (auto simp: inventory_ok_def copies_conserved_def oc bs)
  have fresh: "Some (lib_next S) \<notin> set (map transactionId (lib_loans S))"
    using assms(1) by (fastforce simp: inventory_ok_def loans_wf_def)
  have wf: "loans_wf S'"
    using assms(1) fresh b unfolding S' inventory_ok_def loans_wf_def
    by (auto simp: new_loan_def less_Suc_eq)
  have kb: "keys_below S'"
    using assms(1) b by (auto simp: S' inventory_ok_def keys_below_def less_Suc_eq dom_def)
  show ?thesis using cc wf kb by (simp add: inventory_ok_def)
qed

section \<open>Properties\<close>

text \<open>
  C12: with read-modify-write commits the lost update happens for every store and every
  two borrows of the same book that each pass the checks on the store: when both
  clients read before either commits, both loans are recorded but the copy count drops
  by one only, so the book has one copy more out on loan than its count accounts for.
\<close>

theorem rmw_race_oversubscribes:
  assumes "copies_conserved S" and "c1 \<noteq> c2"
    and "attemptBorrow cfg bid m1 t1 S = Inr S1" and "attemptBorrow cfg bid m2 t2 S = Inr S2"
  shows "length (lib_loans (store (fold (race_step (rmw_commit cfg))
             [ReadSnapshot c1, ReadSnapshot c2, CommitBorrow c1 bid m1 t1, CommitBorrow c2 bid m2 t2]
             (race_start S)))) = length (lib_loans S) + 2 \<and>
         open_copies (store (fold (race_step (rmw_commit cfg))
             [ReadSnapshot c1, ReadSnapshot c2, CommitBorrow c1 bid m1 t1, CommitBorrow c2 bid m2 t2]
             (race_start S))) bid = open_copies S bid + 2 \<and>
         lib_books (store (fold (race_step (rmw_commit cfg))
             [ReadSnapshot c1, ReadSnapshot c2, CommitBorrow c1 bid m1 t1, CommitBorrow c2 bid m2 t2]
             (race_start S))) bid = lib_books S1 bid \<and>
         BookType.availableCopies (the (lib_books S1 bid)) +
           int (open_copies (store (fold (race_step (rmw_commit cfg))
             [ReadSnapshot c1, ReadSnapshot c2, CommitBorrow c1 bid m1 t1, CommitBorrow c2 bid m2 t2]
             (race_start S))) bid) = totalCopies (the (lib_books S1 bid)) + 1"
proof -
  obtain b n1 where b: "lib_books S bid = Some b" and n1: "lib_members S m1 = Some n1"
    and S1: "S1 = S\<lparr>lib_books := (lib_books S)(bid \<mapsto> b\<lparr>availableCopies := availableCopies b - 1\<rparr>),
               lib_loans := lib_loans S @ [new_loan cfg (lib_next S) bid b m1 n1 t1],
               lib_next := Suc (lib_next S)\<rparr>"
    using assms(3) by (auto simp: attemptBorrow_Inr)
  obtain n2 where n2: "lib_members S m2 = Some n2"
    and S2: "S2 = S\<lparr>lib_books := (lib_books S)(bid \<mapsto> b\<lparr>availableCopies := availableCopies b - 1\<rparr>),
               lib_loans := lib_loans S @ [new_loan cfg (lib_next S) bid b m2 n2 t2],
               lib_next := Suc (lib_next S)\<rparr>"
    using assms(4) b by (auto simp: attemptBorrow_Inr)
  define S' where "S' = store (fold (race_step (rmw_commit cfg))
             [ReadSnapshot c1, ReadSnapshot c2, CommitBorrow c1 bid m1 t1, CommitBorrow c2 bid m2 t2]
             (race_start S))"
  have S': "S' = S\<lparr>lib_books := (lib_books S)(bid \<mapsto> b\<lparr>availableCopies := availableCopies b - 1\<rparr>),
               lib_loans := lib_loans S @ [new_loan cfg (lib_next S) bid b m1 n1 t1,
                                           new_loan cfg (Suc (lib_next S)) bid b m2 n2 t2],
               lib_next := Suc (Suc (lib_next S))\<rparr>"
    using assms(2-4) b n1 n2 unfolding S'_def by (simp add: rmw_commit_def S1 S2)
  have oc: "open_copies S' bid = open_copies S bid + 2"
    by (simp add: S' open_copies_def new_loan_def)
  have cons: "availableCopies b + int (open_copies S bid) = totalCopies b"
    using assms(1) b by (simp add: copies_conserved_def)
  show ?thesis
    using oc cons unfolding S'_def [symmetric] by (simp add: S' S1 b)
qed

text \<open>
  C8: with the conditional decrement, every schedule of any number of clients, however
  stale their snapshots, keeps the store's copies conserved and never negative, its
  loans well formed and its keys below the counter.
\<close>

theorem cas_schedule_inventory:
  "inventory_ok (store s) \<Longrightarrow> inventory_ok (store (fold (race_step (cas_commit cfg)) ops s))"
  by (rule race_fold_store [where P = inventory_ok]) (auto intro: cas_commit_inventory)

section \<open>Witnesses\<close>

theorem rmw_race_oversubscribes_witness:
  "copies_conserved (demo_store ACTIVE) \<and> (0::nat) \<noteq> 1 \<and>
   attemptBorrow demo_cfg 1 2 0 (demo_store ACTIVE) = Inr demo_lent \<and>
   open_copies (store (fold (race_step (rmw_commit demo_cfg))
     [ReadSnapshot 0, ReadSnapshot 1, CommitBorrow 0 1 2 0, CommitBorrow 1 1 2 0]
     (race_start (demo_store ACTIVE)))) 1 = 2"
proof -
  have c: "copies_conserved (demo_store ACTIVE)" using demo_store_inv by (simp add: lib_inv_def)
  have d: "(0::nat) \<noteq> 1" by simp
  have e: "attemptBorrow demo_cfg 1 2 0 (demo_store ACTIVE) = Inr demo_lent" by (rule demo_borrow)
  show ?thesis
    using c d e rmw_race_oversubscribes [OF c d e e] by (simp add: open_copies_def)
qed

theorem cas_schedule_inventory_witness:
  "inventory_ok (store (race_start (demo_store ACTIVE))) \<and>
   inventory_ok (store (fold (race_step (cas_commit demo_cfg))
      [ReadSnapshot 0, ReadSnapshot 1, CommitBorrow 0 1 2 0, CommitBorrow 1 1 2 0]
      (race_start (demo_store ACTIVE))))"
proof -
  have i: "inventory_ok (store (race_start (demo_store ACTIVE)))"
    using demo_store_inv by (simp add: lib_inv_def inventory_ok_def)
  show ?thesis using i cas_schedule_inventory [OF i] by blast
qed

end
