(* ===== verification/Dashboard.thy ===== *)
theory Dashboard
  imports Borrowing Books Members
begin

text \<open>
  The dashboard of \<open>src/src/components/Dashboard.tsx\<close>: its statistics record, its
  state, \<open>fetchStats\<close> (a health check first, then four requests settled together,
  then counts over the responses), the demo-data switch, and what the page shows. The
  responses are taken at the client's record types (\<open>BookType\<close>, \<open>Member\<close>,
  \<open>BorrowingTransaction\<close>), whose fields are the only ones the counts read.
\<close>

section \<open>Data and state\<close>

record DashboardStats =
  totalBooks :: nat
  availableBooks :: nat
  totalMembers :: nat
  activeTransactions :: nat
  overdueBooks :: nat

definition zero_stats :: DashboardStats where
  "zero_stats = \<lparr>totalBooks = 0, availableBooks = 0, totalMembers = 0, activeTransactions = 0,
                 overdueBooks = 0\<rparr>"

definition mockStats :: DashboardStats where
  "mockStats = \<lparr>totalBooks = 10, availableBooks = 7, totalMembers = 8, activeTransactions = 5,
                overdueBooks = 1\<rparr>"

record dashboard_state =
  stats :: DashboardStats
  loading :: bool
  showStartupGuide :: bool
  usingMockData :: bool

definition dashboard_init :: dashboard_state where
  "dashboard_init = \<lparr>stats = zero_stats, loading = True, showStartupGuide = False, usingMockData = False\<rparr>"

section \<open>Loading the statistics\<close>

text \<open>The counts of lines 56--70, over the four settled responses (a failed one counts as empty).\<close>

definition compute_stats ::
  "BookType list settled \<Rightarrow> Member list settled \<Rightarrow> BorrowingTransaction list settled \<Rightarrow>
   BorrowingTransaction list settled \<Rightarrow> DashboardStats" where
  "compute_stats br mr tr orr =
     (let booksData = settled_or br [];
          membersData = settled_or mr [];
          transactionsData = settled_or tr [];
          overdueData = settled_or orr []
      in \<lparr>totalBooks = length booksData,
          availableBooks = length (filter (\<lambda>b. BookType.availableCopies b > 0) booksData),
          totalMembers = length membersData,
          activeTransactions = length (filter (\<lambda>t. status t = BORROWED) transactionsData),
          overdueBooks = length overdueData\<rparr>)"

text \<open>
  \<open>fetchStats\<close> (lines 38--87): when the health check fails, the \<open>throw\<close> lands in the
  \<open>catch\<close>, which shows the startup guide and zeroes the counts but leaves
  \<open>usingMockData\<close> as it was; otherwise the counts replace the old ones and both the
  guide and the demo flag are cleared. The four requests are only awaited when the
  backend is healthy.
\<close>

definition fetchStats ::
  "bool \<Rightarrow> BookType list settled \<Rightarrow> Member list settled \<Rightarrow> BorrowingTransaction list settled \<Rightarrow>
   BorrowingTransaction list settled \<Rightarrow> dashboard_state \<Rightarrow> dashboard_state" where
  "fetchStats healthy br mr tr orr s =
     (let s0 = s\<lparr>loading := True\<rparr>;
          s1 = (if \<not> healthy then s0\<lparr>showStartupGuide := True, stats := zero_stats\<rparr>
                else s0\<lparr>stats := compute_stats br mr tr orr, showStartupGuide := False,
                        usingMockData := False\<rparr>)
      in s1\<lparr>loading := False\<rparr>)"

text \<open>\<open>handleUseMockData\<close> (lines 89--93).\<close>

definition handleUseMockData :: "dashboard_state \<Rightarrow> dashboard_state" where
  "handleUseMockData s = s\<lparr>stats := mockStats, usingMockData := True, showStartupGuide := False\<rparr>"

section \<open>The rendered page\<close>

text \<open>
  What the page shows once loaded (lines 113--207): the demo-mode note, the startup
  guide with the demo button, the four counts, and the three status labels.
\<close>

datatype status_label = Active | Running | Enabled | DemoMode

record dashboard_view =
  demo_note :: bool
  guide_shown :: bool
  shown_stats :: DashboardStats
  status_labels :: "status_label list"

definition render_dashboard :: "dashboard_state \<Rightarrow> dashboard_view option" where
  "render_dashboard s =
     (if loading s then None
      else Some \<lparr>demo_note = usingMockData s, guide_shown = showStartupGuide s,
                 shown_stats = stats s,
                 status_labels = (if usingMockData s then [DemoMode, DemoMode, DemoMode]
                                  else [Active, Running, Enabled])\<rparr>)"

section \<open>The demo-data button\<close>

text \<open>
  \<open>MockDataProvider\<close> (\<open>src/src/components/MockDataProvider.tsx\<close>) is shown with
  the startup guide (Dashboard lines 115--120). Its button is disabled while its own
  \<open>isLoading\<close> is set (lines 35--38); a click sets it and waits one second (lines
  15--18); then it calls \<open>onUseMockData\<close>, which is the dashboard's
  \<open>handleUseMockData\<close>, and clears \<open>isLoading\<close> (lines 19--20). Calling the
  handler hides the guide and so unmounts the provider; a provider mounted again starts
  with \<open>isLoading = false\<close>, which is the state it is left in here. Timeouts
  already scheduled still fire after an unmount, so they are counted apart.
\<close>

record dashboard_sys =
  dash :: dashboard_state
  mock_isLoading :: bool
  mock_timers :: nat

datatype demo_event = DemoClick | DemoTimerFires

definition demo_button_enabled :: "dashboard_sys \<Rightarrow> bool" where
  "demo_button_enabled c \<longleftrightarrow>
     \<not> loading (dash c) \<and> showStartupGuide (dash c) \<and> \<not> mock_isLoading c"

fun demo_step :: "demo_event \<Rightarrow> dashboard_sys \<Rightarrow> dashboard_sys" where
  "demo_step DemoClick c =
     (if demo_button_enabled c then c\<lparr>mock_isLoading := True, mock_timers := Suc (mock_timers c)\<rparr>
      else c)"
| "demo_step DemoTimerFires c =
     (if 0 < mock_timers c then
        c\<lparr>dash := handleUseMockData (dash c), mock_isLoading := False, mock_timers := mock_timers c - 1\<rparr>
      else c)"

lemmas dashboard_defs [handler_simps] = fetchStats_def handleUseMockData_def

section \<open>Lemmas\<close>

lemma fetchStats_healthy:
  "fetchStats True br mr tr orr s =
     s\<lparr>stats := compute_stats br mr tr orr, showStartupGuide := False, usingMockData := False,
       loading := False\<rparr>"
  by (simp add: fetchStats_def)

lemma fetchStats_unhealthy:
  "fetchStats False br mr tr orr s = s\<lparr>showStartupGuide := True, stats := zero_stats, loading := False\<rparr>"
  by (simp add: fetchStats_def)

lemma handleUseMockData_idem [simp]: "handleUseMockData (handleUseMockData s) = handleUseMockData s"
  by (simp add: handleUseMockData_def)

lemma demo_step_cases:
  "dash (demo_step e c) = dash c \<or> dash (demo_step e c) = handleUseMockData (dash c)"
  by (cases e) simp_all

lemma demo_step_timers:
  "mock_timers c = (if mock_isLoading c then 1 else 0) \<Longrightarrow>
   mock_timers (demo_step e c) = (if mock_isLoading (demo_step e c) then 1 else 0)"
  by (cases e) (simp_all add: demo_button_enabled_def)

section \<open>Properties\<close>

text \<open>
  The counts are consistent: no more available books than books, and no more
  active transactions than transactions listed.
\<close>

theorem compute_stats_bounds:
  "availableBooks (compute_stats br mr tr orr) \<le> totalBooks (compute_stats br mr tr orr) \<and>
   activeTransactions (compute_stats br mr tr orr) \<le> length (settled_or tr [])"
  by (simp add: compute_stats_def Let_def)

text \<open>
  C29: after \<open>fetchStats\<close> the spinner is off; with an unreachable backend the startup
  guide is shown with all counts zero and the demo flag untouched; with a reachable one
  the counts are those of the responses, the guide is hidden and demo mode is off.
\<close>

theorem fetchStats_result:
  "\<not> loading (fetchStats h br mr tr orr s) \<and>
   (if h then stats (fetchStats h br mr tr orr s) = compute_stats br mr tr orr \<and>
              \<not> showStartupGuide (fetchStats h br mr tr orr s) \<and>
              \<not> usingMockData (fetchStats h br mr tr orr s)
    else stats (fetchStats h br mr tr orr s) = zero_stats \<and>
         showStartupGuide (fetchStats h br mr tr orr s) \<and>
         usingMockData (fetchStats h br mr tr orr s) = usingMockData s)"
  by (cases h) (simp_all add: fetchStats_healthy fetchStats_unhealthy)

text \<open>
  Choosing demo data shows the fixed sample counts, hides the guide and labels all
  three system-status lines "Demo Mode".
\<close>

theorem demo_mode_view:
  assumes "\<not> loading s"
  shows "render_dashboard (handleUseMockData s) =
           Some \<lparr>demo_note = True, guide_shown = False, shown_stats = mockStats,
                 status_labels = [DemoMode, DemoMode, DemoMode]\<rparr>"
  using assms by (simp add: render_dashboard_def handleUseMockData_def)

text \<open>
  C28: however clicks on the demo button and its timeouts interleave, starting from a
  provider with nothing scheduled: at most one timeout is pending, exactly while the
  button shows "Loading Demo...", since clicks made meanwhile hit a disabled button;
  and the dashboard is either as it was or the demo dashboard.
\<close>

theorem demo_events_result:
  assumes "\<not> mock_isLoading c" and "mock_timers c = 0"
  shows "mock_timers (fold demo_step es c) = (if mock_isLoading (fold demo_step es c) then 1 else 0) \<and>
         (dash (fold demo_step es c) = dash c \<or>
          dash (fold demo_step es c) = handleUseMockData (dash c))"
proof -
  have "mock_timers (fold demo_step es c') = (if mock_isLoading (fold demo_step es c') then 1 else 0)"
    if "mock_timers c' = (if mock_isLoading c' then 1 else 0)" for c'
    using that by (induction es arbitrary: c') (simp_all add: demo_step_timers)
  moreover have "dash (fold demo_step es c') = dash c' \<or>
                 dash (fold demo_step es c') = handleUseMockData (dash c')" for c'
  proof (induction es arbitrary: c')
    case Nil
    then show ?case by simp
  next
    case (Cons e es)
    from demo_step_cases [of e c'] show ?case
    proof
      assume "dash (demo_step e c') = dash c'"
      then show ?thesis using Cons.IH [of "demo_step e c'"] by simp
    next
      assume "dash (demo_step e c') = handleUseMockData (dash c')"
      then show ?thesis using Cons.IH [of "demo_step e c'"] by auto
    qed
  qed
  ultimately show ?thesis using assms by simp
qed

section \<open>Witnesses\<close>

theorem demo_events_result_witness:
  "mock_timers (fold demo_step [DemoClick, DemoClick, DemoTimerFires, DemoClick]
     \<lparr>dash = dashboard_init, mock_isLoading = False, mock_timers = 0\<rparr>) =
     (if mock_isLoading (fold demo_step [DemoClick, DemoClick, DemoTimerFires, DemoClick]
        \<lparr>dash = dashboard_init, mock_isLoading = False, mock_timers = 0\<rparr>) then 1 else 0)"
  using demo_events_result [of "\<lparr>dash = dashboard_init, mock_isLoading = False, mock_timers = 0\<rparr>"
      "[DemoClick, DemoClick, DemoTimerFires, DemoClick]"] by simp

theorem demo_mode_view_witness:
  "\<not> loading (fetchStats False (Rejected []) (Rejected []) (Rejected []) (Rejected []) dashboard_init) \<and>
   render_dashboard (handleUseMockData
     (fetchStats False (Rejected []) (Rejected []) (Rejected []) (Rejected []) dashboard_init)) =
   Some \<lparr>demo_note = True, guide_shown = False, shown_stats = mockStats,
         status_labels = [DemoMode, DemoMode, DemoMode]\<rparr>"
proof -
  have h: "\<not> loading (fetchStats False (Rejected []) (Rejected []) (Rejected []) (Rejected []) dashboard_init)"
    by (simp add: fetchStats_unhealthy)
  show ?thesis using h demo_mode_view [OF h] by blast
qed

end
