(* ===== verification/Connection.thy ===== *)
theory Connection
  imports Api
begin

text \<open>
  The connection banner of \<open>src/src/components/ConnectionStatus.tsx\<close>: its state,
  \<open>checkConnection\<close> split at its \<open>await\<close>, the three-way choice of banner, and the
  component's life as a step relation: the check started by the mount effect, the one
  started by every 30-second tick of the interval, the one started by the \<open>Retry\<close>
  button, and the health replies, which may arrive in any order. Checks in flight are
  counted, since the interval does not wait for the previous check.
\<close>

section \<open>State and the check\<close>

record conn_state =
  isConnected :: "bool option"
  isChecking :: bool
  lastChecked :: "timestamp option"

definition conn_init :: conn_state where
  "conn_init = \<lparr>isConnected = None, isChecking = False, lastChecked = None\<rparr>"

text \<open>
  \<open>checkConnection\<close> (lines 13--26): \<open>setIsChecking(true)\<close> before the \<open>await\<close>;
  after it the result, the time and the end of checking. \<open>checkBackendHealth\<close> never
  rejects, so the \<open>catch\<close> branch (which would record a failure) is dead.
\<close>

definition check_start :: "conn_state \<Rightarrow> conn_state" where
  "check_start s = s\<lparr>isChecking := True\<rparr>"

definition check_finish :: "bool \<Rightarrow> timestamp \<Rightarrow> conn_state \<Rightarrow> conn_state" where
  "check_finish healthy now s = s\<lparr>isConnected := Some healthy, lastChecked := Some now, isChecking := False\<rparr>"

definition checkConnection :: "unit http_reply \<Rightarrow> timestamp \<Rightarrow> conn_state \<Rightarrow> conn_state" where
  "checkConnection r now s = check_finish (checkBackendHealth r) now (check_start s)"

section \<open>The banner\<close>

text \<open>
  What the component renders (lines 35--85): the checking card only before the first
  result, the disconnected card whenever \<open>!isConnected\<close> (also before any check has
  started), with the time of the last check and a \<open>Retry\<close> button disabled while
  checking, and the connected card otherwise.
\<close>

datatype banner =
    CheckingBanner
  | DisconnectedBanner "timestamp option" bool  \<comment> \<open>last check, Retry disabled\<close>
  | ConnectedBanner "timestamp option"

definition conn_banner :: "conn_state \<Rightarrow> banner" where
  "conn_banner s =
     (if isConnected s = None \<and> isChecking s then CheckingBanner
      else if isConnected s \<noteq> Some True then DisconnectedBanner (lastChecked s) (isChecking s)
      else ConnectedBanner (lastChecked s))"

section \<open>The component over time\<close>

text \<open>
  The component with the checks it has in flight, whether its interval runs and whether
  it is mounted. Mounting (once, from the initial state) starts a check and the interval
  (lines 28--33); a tick of the interval starts a check; the \<open>Retry\<close> button starts
  one when it is shown and enabled (lines 60--62); a reply finishes one check, and its
  state updates are dropped once the component is gone; unmounting runs the cleanup
  \<open>clearInterval\<close> (line 32) and removes the component.
\<close>

record conn_sys =
  conn :: conn_state
  in_flight :: nat
  polling :: bool
  mounted :: bool

definition conn_sys_init :: conn_sys where
  "conn_sys_init = \<lparr>conn = conn_init, in_flight = 0, polling = False, mounted = False\<rparr>"

inductive conn_step :: "conn_sys \<Rightarrow> conn_sys \<Rightarrow> bool" where
  mount: "conn_step conn_sys_init
    (conn_sys_init\<lparr>conn := check_start conn_init, in_flight := 1, polling := True, mounted := True\<rparr>)"
| tick: "polling c \<Longrightarrow>
    conn_step c (c\<lparr>conn := check_start (conn c), in_flight := Suc (in_flight c)\<rparr>)"
| retry: "mounted c \<Longrightarrow> conn_banner (conn c) = DisconnectedBanner t False \<Longrightarrow>
    conn_step c (c\<lparr>conn := check_start (conn c), in_flight := Suc (in_flight c)\<rparr>)"
| reply: "0 < in_flight c \<Longrightarrow>
    conn_step c (c\<lparr>conn := (if mounted c then check_finish (checkBackendHealth (r :: unit http_reply)) now (conn c)
                            else conn c),
                   in_flight := in_flight c - 1\<rparr>)"
| unmount: "mounted c \<Longrightarrow> conn_step c (c\<lparr>polling := False, mounted := False\<rparr>)"

inductive conn_reachable :: "conn_sys \<Rightarrow> bool" where
  init: "conn_reachable conn_sys_init"
| step: "conn_reachable c \<Longrightarrow> conn_step c c' \<Longrightarrow> conn_reachable c'"

text \<open>
  The invariant: a result and a check time are recorded together; a mounted component
  with no check in flight shows no check in progress; the interval runs only while the
  component is mounted; and once mounted, a check is in progress or one has finished.
\<close>

definition conn_inv :: "conn_sys \<Rightarrow> bool" where
  "conn_inv c \<longleftrightarrow>
     (isConnected (conn c) = None \<longleftrightarrow> lastChecked (conn c) = None) \<and>
     (mounted c \<and> in_flight c = 0 \<longrightarrow> \<not> isChecking (conn c)) \<and>
     (polling c \<longrightarrow> mounted c) \<and>
     (c = conn_sys_init \<or> isChecking (conn c) \<or> lastChecked (conn c) \<noteq> None)"

section \<open>Lemmas\<close>

lemma conn_init_inv: "conn_inv conn_sys_init"
  by (simp add: conn_inv_def conn_sys_init_def conn_init_def)

lemma conn_step_inv: "conn_step c c' \<Longrightarrow> conn_inv c \<Longrightarrow> conn_inv c'"
  by (induction rule: conn_step.induct)
     (auto simp: conn_inv_def conn_sys_init_def conn_init_def check_start_def check_finish_def)

lemma conn_banner_finish:
  "conn_banner (check_finish h now s) =
     (if h then ConnectedBanner (Some now) else DisconnectedBanner (Some now) False)"
  by (simp add: conn_banner_def check_finish_def)

section \<open>Properties\<close>

text \<open>
  C11: in every reachable state of the banner component a health result and its time are
  recorded together, a mounted component shows no check in progress when none is in
  flight, and the interval runs only while the component is mounted: the cleanup of
  the mount effect stops it.
\<close>

theorem conn_reachable_inv: "conn_reachable c \<Longrightarrow> conn_inv c"
proof (induction rule: conn_reachable.induct)
  case init
  show ?case by (rule conn_init_inv)
next
  case (step c c')
  then show ?case by (blast intro: conn_step_inv)
qed

text \<open>
  C21: after a completed check the banner says connected exactly when the health check
  got a 200, and shows the time of that check with an enabled \<open>Retry\<close> otherwise.
\<close>

theorem checkConnection_banner:
  "conn_banner (checkConnection r now s) =
     (if (\<exists>b. r = Reply 200 b) then ConnectedBanner (Some now) else DisconnectedBanner (Some now) False)"
  by (simp add: checkConnection_def conn_banner_finish checkBackendHealth_iff)

text \<open>
  C22: the "Backend Server Disconnected" card without a check time is shown in exactly
  one reachable state: the first render, before the mount effect has started a check.
  \<open>!isConnected\<close> holds for the initial \<open>null\<close> and the checking card needs
  \<open>isChecking\<close>, so that render shows the red card; afterwards a check is always in
  progress or has recorded its time.
\<close>

theorem initial_banner_disconnected:
  assumes "conn_reachable c"
  shows "conn_banner (conn c) = DisconnectedBanner None False \<longleftrightarrow> c = conn_sys_init"
proof -
  have "conn_inv c" using assms
    by (induction rule: conn_reachable.induct) (blast intro: conn_init_inv conn_step_inv)+
  then show ?thesis
    by (auto simp: conn_inv_def conn_banner_def conn_sys_init_def conn_init_def split: if_splits)
qed

section \<open>Witnesses\<close>

theorem conn_reachable_inv_witness:
  "conn_reachable (conn_sys_init\<lparr>conn := check_start conn_init, in_flight := 1, polling := True,
                                 mounted := True\<rparr>) \<and>
   conn_inv (conn_sys_init\<lparr>conn := check_start conn_init, in_flight := 1, polling := True,
                           mounted := True\<rparr>)"
proof -
  have "conn_step conn_sys_init (conn_sys_init\<lparr>conn := check_start conn_init, in_flight := 1,
                                 polling := True, mounted := True\<rparr>)"
    by (rule conn_step.mount)
  then have r: "conn_reachable (conn_sys_init\<lparr>conn := check_start conn_init, in_flight := 1,
                                 polling := True, mounted := True\<rparr>)"
    by (rule conn_reachable.step [OF conn_reachable.init])
  show ?thesis using r conn_reachable_inv [OF r] by blast
qed

theorem initial_banner_disconnected_witness:
  "conn_reachable conn_sys_init \<and>
   conn_banner (conn conn_sys_init) = DisconnectedBanner None False"
  using conn_reachable.init initial_banner_disconnected [OF conn_reachable.init] by simp

end
