(* ===== verification/App.thy ===== *)
theory App
  imports Dashboard Connection
begin

text \<open>
  The shell of \<open>src/src/App.tsx\<close>: the active tab, the four tab buttons of which the
  active one is drawn with the \<open>default\<close> variant and the others \<open>outline\<close>, and
  \<open>renderContent\<close>, which picks the page. The tab names are the string literals of
  \<open>ActiveTab\<close>; the \<open>default\<close> branch of the \<open>switch\<close> cannot be taken, since a
  value of the datatype is always one of the four.
\<close>

datatype ActiveTab = TabDashboard | TabBooks | TabMembers | TabBorrowing

datatype page = DashboardPage | BookManagementPage | MemberManagementPage | BorrowingManagementPage

datatype button_variant = BtnDefault | BtnOutline

record app_state =
  activeTab :: ActiveTab

definition app_init :: app_state where
  "app_init = \<lparr>activeTab = TabDashboard\<rparr>"

text \<open>\<open>renderContent\<close> (lines 17--30).\<close>

fun renderContent :: "ActiveTab \<Rightarrow> page" where
  "renderContent TabDashboard = DashboardPage"
| "renderContent TabBooks = BookManagementPage"
| "renderContent TabMembers = MemberManagementPage"
| "renderContent TabBorrowing = BorrowingManagementPage"

text \<open>The tab bar (lines 47--80), in the order of the buttons; a click calls \<open>setActiveTab\<close>.\<close>

definition tab_order :: "ActiveTab list" where
  "tab_order = [TabDashboard, TabBooks, TabMembers, TabBorrowing]"

definition tab_buttons :: "app_state \<Rightarrow> (ActiveTab \<times> button_variant) list" where
  "tab_buttons s = map (\<lambda>t. (t, if activeTab s = t then BtnDefault else BtnOutline)) tab_order"

definition setActiveTab :: "ActiveTab \<Rightarrow> app_state \<Rightarrow> app_state" where
  "setActiveTab t s = s\<lparr>activeTab := t\<rparr>"

text \<open>What the shell shows: the banner, the tab bar and the page of the active tab.\<close>

record app_view =
  app_banner :: banner
  app_tabs :: "(ActiveTab \<times> button_variant) list"
  app_page :: page

definition render_app :: "conn_state \<Rightarrow> app_state \<Rightarrow> app_view" where
  "render_app c s = \<lparr>app_banner = conn_banner c, app_tabs = tab_buttons s,
                     app_page = renderContent (activeTab s)\<rparr>"

section \<open>Lemmas\<close>

lemma tab_order_all: "t \<in> set tab_order"
  by (cases t) (simp_all add: tab_order_def)

lemma renderContent_inj: "renderContent a = renderContent b \<longleftrightarrow> a = b"
  by (cases a; cases b) simp_all

section \<open>Properties\<close>

text \<open>
  C37: after any sequence of tab clicks the page shown is that of the last tab clicked
  (the dashboard before any click), exactly one of the four buttons is highlighted, and
  it is the button of the page shown.
\<close>

theorem tabs_consistent:
  "app_page (render_app c (fold setActiveTab clicks app_init)) =
     renderContent (last (TabDashboard # clicks)) \<and>
   [(t, v) \<leftarrow> app_tabs (render_app c (fold setActiveTab clicks app_init)). v = BtnDefault] =
     [(last (TabDashboard # clicks), BtnDefault)] \<and>
   (\<forall>t. (t, BtnDefault) \<in> set (app_tabs (render_app c (fold setActiveTab clicks app_init))) \<longleftrightarrow>
        renderContent t = app_page (render_app c (fold setActiveTab clicks app_init)))"
proof -
  have last: "activeTab (fold setActiveTab clicks s) = last (activeTab s # clicks)" for s
    by (induction clicks arbitrary: s) (simp_all add: setActiveTab_def)
  define a where "a = last (TabDashboard # clicks)"
  have act: "activeTab (fold setActiveTab clicks app_init) = a"
    by (simp add: last a_def app_init_def)
  have one: "[(t, v) \<leftarrow> tab_buttons (fold setActiveTab clicks app_init). v = BtnDefault] = [(a, BtnDefault)]"
    by (cases a) (simp_all add: tab_buttons_def tab_order_def act)
  have "(t, BtnDefault) \<in> set (tab_buttons (fold setActiveTab clicks app_init)) \<longleftrightarrow> t = a" for t
    using tab_order_all [of t] by (auto simp: tab_buttons_def act split: if_splits)
  then show ?thesis using one by (simp add: render_app_def act renderContent_inj a_def)
qed

end
