(* ===== verification/Reload.thy ===== *)
theory Reload
  imports Lifecycle
begin

text \<open>
  The borrowing view working against the backend over time. A session holds the
  server's store (the lifecycle model), the view's state, the effects the view has
  produced, and the replies of the reloads it has started, in the order their
  requests were sent. Clicking \<open>Return Book\<close> on a card runs \<open>handleReturnBook\<close>
  with the server's answer to the POST; its reload is answered with the store as it
  is right after the return, and that reply reaches the view later, in any order
  relative to other replies. The reloaded book and member options are the ones the
  view already holds: only the transaction list is followed.
\<close>

section \<open>Sessions\<close>

record session =
  server :: library
  view :: borrowing_state
  sent :: "effect list"
  replies :: "BorrowingTransaction list list"

text \<open>The HTTP outcome of the return endpoint: a failure is a non-2xx status.\<close>

definition server_reply :: "lib_error + library \<Rightarrow> api_error + unit" where
  "server_reply r = (case r of Inl _ \<Rightarrow> Inl (HttpStatus 400) | Inr _ \<Rightarrow> Inr ())"

definition session_return :: "ident \<Rightarrow> timestamp \<Rightarrow> session \<Rightarrow> session" where
  "session_return tid now S =
     (let r = attemptReturn tid now (server S);
          L' = (case r of Inl _ \<Rightarrow> server S | Inr L \<Rightarrow> L);
          (v', effs) = handleReturnBook tid (server_reply r) (view S)
      in S\<lparr>server := L', view := v', sent := sent S @ effs,
           replies := replies S @ (if StartFetch \<in> set effs then [lib_loans L'] else [])\<rparr>)"

text \<open>
  A click on the \<open>Return Book\<close> button of the card at position \<open>k\<close> (Borrowing
  lines 246--255): the button exists only on a card it is rendered for, and
  \<open>return_click\<close> gives the id it sends.
\<close>

definition session_click :: "nat \<Rightarrow> timestamp \<Rightarrow> session \<Rightarrow> session" where
  "session_click k now S =
     (if k < length (transactions (view S)) \<and>
         return_button (transaction_card now (transactions (view S) ! k))
      then (case return_click (transactions (view S) ! k) of
              None \<Rightarrow> S
            | Some tid \<Rightarrow> session_return tid now S)
      else S)"

text \<open>The reply of the \<open>i\<close>-th pending reload reaches \<open>fetchData\<close>.\<close>

definition session_deliver :: "nat \<Rightarrow> session \<Rightarrow> session" where
  "session_deliver i S =
     (if i < length (replies S) then
        S\<lparr>view := fetch_finish (Fulfilled (replies S ! i)) (Fulfilled (borrowing_state.books (view S)))
                    (Fulfilled (borrowing_state.members (view S))) (view S),
          replies := take i (replies S) @ drop (Suc i) (replies S)\<rparr>
      else S)"

datatype session_event = ClickReturn nat timestamp | ReloadArrives nat

fun session_step :: "session_event \<Rightarrow> session \<Rightarrow> session" where
  "session_step (ClickReturn k now) S = session_click k now S"
| "session_step (ReloadArrives i) S = session_deliver i S"

text \<open>Replies delivered in the order their requests were sent.\<close>

fun in_order :: "session_event \<Rightarrow> bool" where
  "in_order (ClickReturn _ _) = True"
| "in_order (ReloadArrives i) = (i = 0)"

text \<open>
  The view is in step with the server: with no reload pending it shows the server's
  transactions, and otherwise the last reload sent will bring them.
\<close>

definition session_ok :: "session \<Rightarrow> bool" where
  "session_ok S \<longleftrightarrow>
     (if replies S = [] then transactions (view S) = lib_loans (server S)
      else last (replies S) = lib_loans (server S))"

section \<open>An example session\<close>

text \<open>A book with two copies, both lent to the same member, and a view that shows the two loans.\<close>

abbreviation two_copy_book :: BookType where
  "two_copy_book \<equiv> demo_book\<lparr>BookType.bookId := Some 1, BookType.availableCopies := 0, totalCopies := 2\<rparr>"

abbreviation two_loans :: library where
  "two_loans \<equiv>
     \<lparr>lib_books = Map.empty(1 \<mapsto> two_copy_book),
      lib_members = Map.empty(2 \<mapsto> (demo_member ACTIVE)\<lparr>Member.memberId := Some 2\<rparr>),
      lib_loans = [new_loan demo_cfg 3 1 two_copy_book 2 ((demo_member ACTIVE)\<lparr>Member.memberId := Some 2\<rparr>) 0,
                   new_loan demo_cfg 4 1 two_copy_book 2 ((demo_member ACTIVE)\<lparr>Member.memberId := Some 2\<rparr>) 0],
      lib_next = 5\<rparr>"

abbreviation synced :: session where
  "synced \<equiv> \<lparr>server = two_loans,
              view = borrowing_init\<lparr>transactions := lib_loans two_loans, borrowing_state.loading := False\<rparr>,
              sent = [], replies = []\<rparr>"

section \<open>Lemmas\<close>

text \<open>With unique ids, a return finds the loan at its position.\<close>

lemma find_loan_at:
  assumes "distinct (map transactionId xs)" and "k < length xs" and "transactionId (xs ! k) = Some a"
  shows "find (\<lambda>u. transactionId u = Some a) xs = Some (xs ! k)"
proof -
  have xs: "xs = take k xs @ xs ! k # drop (Suc k) xs" using id_take_nth_drop [OF assms(2)] .
  have "\<forall>u \<in> set (take k xs). transactionId u \<noteq> Some a"
  proof
    fix u assume "u \<in> set (take k xs)"
    then obtain i where i: "i < k" "xs ! i = u" using assms(2) by (auto simp: in_set_conv_nth)
    have "(map transactionId xs ! i = map transactionId xs ! k) = (i = k)"
      using assms(1) by (rule nth_eq_iff_index_eq) (use i(1) assms(2) in simp_all)
    then have "map transactionId xs ! i \<noteq> map transactionId xs ! k" using i(1) by simp
    then show "transactionId u \<noteq> Some a" using i assms(2,3) by simp
  qed
  then have "find (\<lambda>u. transactionId u = Some a) (take k xs @ xs ! k # drop (Suc k) xs) = Some (xs ! k)"
    using assms(3) by (rule find_split_Some)
  then show ?thesis using xs by simp
qed

lemma attemptReturn_open:
  assumes "loans_wf L" and "k < length (lib_loans L)" and "status (lib_loans L ! k) = BORROWED"
    and "transactionId (lib_loans L ! k) = Some a"
  obtains L' where "attemptReturn a now L = Inr L'" and "lib_loans L' = map (close_loan a now) (lib_loans L)"
proof -
  have f: "find (\<lambda>u. transactionId u = Some a) (lib_loans L) = Some (lib_loans L ! k)"
    using assms(1,2,4) by (simp add: loans_wf_def find_loan_at)
  obtain bk where "lib_books L (tx_book.bookId (book (lib_loans L ! k))) = Some bk"
    using assms(1,2) nth_mem by (fastforce simp: loans_wf_def)
  then show ?thesis using that f assms(3) by (simp add: attemptReturn_def)
qed

lemma attemptReturn_closed:
  assumes "loans_wf L" and "k < length (lib_loans L)" and "status (lib_loans L ! k) \<noteq> BORROWED"
    and "transactionId (lib_loans L ! k) = Some a"
  shows "attemptReturn a now L = Inl AlreadyReturned"
  using assms by (simp add: attemptReturn_def loans_wf_def find_loan_at)

text \<open>Two returns of different open loans both succeed; a third return of the second is refused.\<close>

lemma two_open_returns:
  assumes inv: "lib_inv cfg L"
    and jk: "j < length (lib_loans L)" "k < length (lib_loans L)" "j \<noteq> k"
    and opn: "status (lib_loans L ! j) = BORROWED" "status (lib_loans L ! k) = BORROWED"
    and ids: "transactionId (lib_loans L ! j) = Some a" "transactionId (lib_loans L ! k) = Some b"
  obtains L1 L2 where "attemptReturn a t1 L = Inr L1" "lib_loans L1 ! k = lib_loans L ! k"
    "k < length (lib_loans L1)" "attemptReturn b t2 L1 = Inr L2"
    "lib_loans L2 ! k = (lib_loans L ! k)\<lparr>returnDate := Some t2, status := RETURNED\<rparr>"
    "attemptReturn b t3 L2 = Inl AlreadyReturned"
proof -
  let ?ls = "lib_loans L"
  have wf0: "loans_wf L" using inv by (simp add: lib_inv_def)
  have ab: "a \<noteq> b"
  proof
    assume "a = b"
    then have "map transactionId ?ls ! j = map transactionId ?ls ! k" using ids jk by simp
    moreover have "(map transactionId ?ls ! j = map transactionId ?ls ! k) = (j = k)"
      using wf0 by (simp add: loans_wf_def) (rule nth_eq_iff_index_eq, use jk in simp_all)
    ultimately show False using jk(3) by simp
  qed
  obtain L1 where r1: "attemptReturn a t1 L = Inr L1" and l1: "lib_loans L1 = map (close_loan a t1) ?ls"
    using attemptReturn_open [OF wf0 jk(1) opn(1) ids(1)] by blast
  have inv1: "lib_inv cfg L1" by (rule return_lib_inv [OF inv r1])
  have k1: "lib_loans L1 ! k = ?ls ! k" using l1 jk(2) ab ids(2) by (simp add: close_loan_def)
  have len1: "k < length (lib_loans L1)" using l1 jk(2) by simp
  obtain L2 where r2: "attemptReturn b t2 L1 = Inr L2"
    and l2: "lib_loans L2 = map (close_loan b t2) (lib_loans L1)"
    using attemptReturn_open [OF _ len1 _ _] inv1 k1 opn(2) ids(2) by (metis lib_inv_def)
  have inv2: "lib_inv cfg L2" by (rule return_lib_inv [OF inv1 r2])
  have len2: "k < length (lib_loans L2)" using l2 len1 by simp
  have k2: "lib_loans L2 ! k = (?ls ! k)\<lparr>returnDate := Some t2, status := RETURNED\<rparr>"
    using l2 len1 k1 ids(2) by (simp add: close_loan_def)
  have r3: "attemptReturn b t3 L2 = Inl AlreadyReturned"
    using attemptReturn_closed [OF _ len2] inv2 k2 ids(2) by (simp add: lib_inv_def)
  show ?thesis using that r1 k1 len1 r2 k2 r3 by blast
qed

lemma session_return_ok: "session_ok S \<Longrightarrow> session_ok (session_return tid now S)"
  by (auto simp: session_ok_def session_return_def handleReturnBook_def server_reply_def
      fetch_start_def Let_def split: sum.splits)

lemma session_click_ok: "session_ok S \<Longrightarrow> session_ok (session_click k now S)"
  by (simp add: session_click_def session_return_ok split: option.splits)

lemma session_deliver_first_ok: "session_ok S \<Longrightarrow> session_ok (session_deliver 0 S)"
proof (cases "replies S")
  case (Cons p ps)
  assume ok: "session_ok S"
  show ?thesis
  proof (cases ps)
    case Nil
    with Cons ok show ?thesis
      by (simp add: session_ok_def session_deliver_def fetch_finish_def Let_def)
  next
    case (Cons q qs)
    with \<open>replies S = p # ps\<close> ok show ?thesis
      by (simp add: session_ok_def session_deliver_def)
  qed
qed (simp add: session_deliver_def)

lemma session_step_ok: "session_ok S \<Longrightarrow> in_order e \<Longrightarrow> session_ok (session_step e S)"
  by (cases e) (simp_all add: session_click_ok session_deliver_first_ok)

section \<open>Properties\<close>

text \<open>
  C10: when reload replies reach the view in the order their requests were sent, the
  view stays in step with the server through any sequence of return clicks and
  replies; once none is pending it shows exactly the server's transactions.
\<close>

theorem reload_in_order_current:
  assumes "session_ok S" and "list_all in_order es" and "replies (fold session_step es S) = []"
  shows "transactions (view (fold session_step es S)) = lib_loans (server (fold session_step es S))"
proof -
  have "session_ok (fold session_step es S')" if "session_ok S'" for S'
    using assms(2) that by (induction es arbitrary: S') (simp_all add: session_step_ok)
  then show ?thesis using assms(1,3) by (simp add: session_ok_def)
qed

text \<open>
  C13: out of order, the view goes stale. In any session whose view is in step with a
  store satisfying the lifecycle invariant, when a member clicks \<open>Return Book\<close> on two
  open loans with non-zero ids and the second reload's reply arrives first, both returns
  succeed, yet once both replies are in the view shows the second loan exactly as it
  was, \<open>BORROWED\<close> with its \<open>Return Book\<close> button, while the server has it
  \<open>RETURNED\<close>. Clicking that button again is refused by the server and only sends the
  request: no alert, no reload, nothing else changes.
\<close>

theorem stale_reload_silent_retry:
  assumes inv: "lib_inv cfg (server S)"
    and sync: "replies S = []" "transactions (view S) = lib_loans (server S)"
    and jk: "j < length (lib_loans (server S))" "k < length (lib_loans (server S))" "j \<noteq> k"
    and opn: "status (lib_loans (server S) ! j) = BORROWED" "status (lib_loans (server S) ! k) = BORROWED"
    and ids: "transactionId (lib_loans (server S) ! j) = Some a" "a \<noteq> 0"
             "transactionId (lib_loans (server S) ! k) = Some b" "b \<noteq> 0"
  shows "replies (fold session_step [ClickReturn j t1, ClickReturn k t2, ReloadArrives 1, ReloadArrives 0] S) = [] \<and>
         transactions (view (fold session_step [ClickReturn j t1, ClickReturn k t2, ReloadArrives 1, ReloadArrives 0] S)) ! k =
           lib_loans (server S) ! k \<and>
         return_button (transaction_card t3
           (transactions (view (fold session_step [ClickReturn j t1, ClickReturn k t2, ReloadArrives 1, ReloadArrives 0] S)) ! k)) \<and>
         status (lib_loans (server (fold session_step [ClickReturn j t1, ClickReturn k t2, ReloadArrives 1, ReloadArrives 0] S)) ! k) = RETURNED \<and>
         session_step (ClickReturn k t3) (fold session_step [ClickReturn j t1, ClickReturn k t2, ReloadArrives 1, ReloadArrives 0] S) =
           (fold session_step [ClickReturn j t1, ClickReturn k t2, ReloadArrives 1, ReloadArrives 0] S)
             \<lparr>sent := sent (fold session_step [ClickReturn j t1, ClickReturn k t2, ReloadArrives 1, ReloadArrives 0] S) @ [Post (return_url b)]\<rparr>"
proof -
  obtain L1 L2 where r1: "attemptReturn a t1 (server S) = Inr L1"
    and k1: "lib_loans L1 ! k = lib_loans (server S) ! k" and len1: "k < length (lib_loans L1)"
    and r2: "attemptReturn b t2 L1 = Inr L2"
    and k2: "lib_loans L2 ! k = (lib_loans (server S) ! k)\<lparr>returnDate := Some t2, status := RETURNED\<rparr>"
    and r3: "attemptReturn b t3 L2 = Inl AlreadyReturned"
    using two_open_returns [OF inv jk opn ids(1,3)] by blast
  have S1: "session_step (ClickReturn j t1) S =
      S\<lparr>server := L1, view := fetch_start (view S), sent := sent S @ [Post (return_url a), StartFetch],
        replies := [lib_loans L1]\<rparr>"
    using sync jk opn ids r1
    by (simp add: session_click_def session_return_def transaction_card_def return_click_def
        handleReturnBook_def server_reply_def Let_def)
  have S2: "session_step (ClickReturn k t2)
      (S\<lparr>server := L1, view := fetch_start (view S), sent := sent S @ [Post (return_url a), StartFetch],
        replies := [lib_loans L1]\<rparr>) =
      S\<lparr>server := L2, view := fetch_start (fetch_start (view S)),
        sent := sent S @ [Post (return_url a), StartFetch, Post (return_url b), StartFetch],
        replies := [lib_loans L1, lib_loans L2]\<rparr>"
    using sync jk opn ids r2
    by (simp add: S1 session_click_def session_return_def transaction_card_def return_click_def
        handleReturnBook_def server_reply_def fetch_start_def Let_def)
  define S' where "S' = fold session_step [ClickReturn j t1, ClickReturn k t2, ReloadArrives 1, ReloadArrives 0] S"
  have S': "replies S' = [] \<and> transactions (view S') = lib_loans L1 \<and> server S' = L2"
    unfolding S'_def by (simp only: fold_Cons comp_def S1 S2 fold_Nil id_def)
      (simp add: session_deliver_def fetch_start_def fetch_finish_def Let_def)
  have vk: "transactions (view S') ! k = lib_loans (server S) ! k" and lv: "k < length (transactions (view S'))"
    using S' k1 len1 by simp_all
  have click: "session_step (ClickReturn k t3) S' = S'\<lparr>sent := sent S' @ [Post (return_url b)]\<rparr>"
    using vk lv S' opn(2) ids(3,4) r3
    by (simp add: session_click_def session_return_def transaction_card_def return_click_def
        handleReturnBook_def server_reply_def Let_def)
  show ?thesis using S' vk k2 click opn(2) unfolding S'_def [symmetric] by (simp add: transaction_card_def Let_def)
qed

section \<open>Witnesses\<close>

theorem reload_in_order_current_witness:
  "session_ok synced \<and> list_all in_order [ClickReturn 0 10, ClickReturn 1 10, ReloadArrives 0, ReloadArrives 0] \<and>
   replies (fold session_step [ClickReturn 0 10, ClickReturn 1 10, ReloadArrives 0, ReloadArrives 0] synced) = [] \<and>
   transactions (view (fold session_step [ClickReturn 0 10, ClickReturn 1 10, ReloadArrives 0, ReloadArrives 0] synced)) =
     lib_loans (server (fold session_step [ClickReturn 0 10, ClickReturn 1 10, ReloadArrives 0, ReloadArrives 0] synced))"
proof -
  have ok: "session_ok synced" by (simp add: session_ok_def borrowing_init_def)
  have io: "list_all in_order [ClickReturn 0 10, ClickReturn 1 10, ReloadArrives 0, ReloadArrives 0]" by simp
  have r: "replies (fold session_step [ClickReturn 0 10, ClickReturn 1 10, ReloadArrives 0, ReloadArrives 0] synced) = []"
    by (simp add: session_click_def session_return_def session_deliver_def attemptReturn_def
        handleReturnBook_def server_reply_def fetch_start_def fetch_finish_def transaction_card_def
        return_click_def close_loan_def new_loan_def borrowing_init_def Let_def)
  show ?thesis using ok io r reload_in_order_current [OF ok io r] by blast
qed

theorem stale_reload_silent_retry_witness:
  "lib_inv demo_cfg (server synced) \<and>
   status (lib_loans (server (fold session_step [ClickReturn 0 10, ClickReturn 1 10, ReloadArrives 1, ReloadArrives 0] synced)) ! 1) = RETURNED \<and>
   status (transactions (view (fold session_step [ClickReturn 0 10, ClickReturn 1 10, ReloadArrives 1, ReloadArrives 0] synced)) ! 1) = BORROWED"
proof -
  have inv: "lib_inv demo_cfg (server synced)"
    by (simp add: lib_inv_def copies_conserved_def loans_wf_def keys_below_def within_limit_def
        open_copies_def open_loans_def new_loan_def)
  have s: "replies synced = []" "transactions (view synced) = lib_loans (server synced)"
    by (simp_all add: borrowing_init_def)
  have jk: "0 < length (lib_loans (server synced))" "1 < length (lib_loans (server synced))" "(0::nat) \<noteq> 1"
    by simp_all
  have o: "status (lib_loans (server synced) ! 0) = BORROWED" "status (lib_loans (server synced) ! 1) = BORROWED"
    by (simp_all add: new_loan_def)
  have i: "transactionId (lib_loans (server synced) ! 0) = Some 3" "(3::nat) \<noteq> 0"
    "transactionId (lib_loans (server synced) ! 1) = Some 4" "(4::nat) \<noteq> 0"
    by (simp_all add: new_loan_def)
  show ?thesis
    using inv stale_reload_silent_retry [OF inv s jk o i, of 10 10 10] o(2) by simp
qed

end
