(* ===== verification/Spec2Isabelle.thy ===== *)
theory Spec2Isabelle
  imports Race App Reload
begin

text \<open>
  \<^bold>\<open>Verification development of the library-management front end.\<close>
  The repository is a React/TypeScript client (\<open>src/src\<close>) for a REST backend that
  is not part of it. \<open>App.tsx\<close> switches between four tabs; each tab is a component
  that loads its data through the shared axios instance of \<open>services/api.ts\<close>, keeps
  it in React state, filters and renders it, and posts changes back. The backend's
  borrowing logic (specification, section 4.1) is modelled from the specification over
  the client's own record types, so that the client's rendering can be related to it.

  \<^bold>\<open>Theories and what they model.\<close>
  \<^item> \<open>Prelude\<close>: the JavaScript primitives the components call (\<open>toLowerCase\<close> on
    ASCII, \<open>includes\<close> as an executable scan proved equal to \<open>sublist\<close>, \<open>trim\<close>,
    \<open>Math.ceil\<close> of an integer quotient as \<open>ceil_div\<close> proved equal to the real
    ceiling, \<open>toString\<close> of an id with its parse-back), \<open>Promise.allSettled\<close>
    results, badge variants, and shared list lemmas.
  \<^item> \<open>Api\<close> (\<open>services/api.ts\<close>): the response interceptor as
    \<open>on_response_error\<close>, one request with its retry as \<open>api_dispatch\<close> (a
    \<^theory_text>\<open>function\<close> whose termination measure is the unset \<open>_retry\<close> flag), and
    \<open>checkBackendHealth\<close>. The server is an oracle \<open>srv n\<close> giving the reply to
    attempt \<open>n\<close>; timeouts and refusals are replies without a response.
  \<^item> \<open>Borrowing\<close> (\<open>BorrowingManagement.tsx\<close>): the transaction, option and state
    records, \<open>fetchData\<close> (split at its \<open>await\<close> into \<open>fetch_start\<close> and
    \<open>fetch_finish\<close>), \<open>handleBorrowBook\<close> and \<open>handleReturnBook\<close> with the outcome
    of their POST as an argument and their requests and alerts as an effect list,
    \<open>isOverdue\<close>, \<open>getDaysOverdue\<close>, \<open>getStatusBadgeVariant\<close>, each card
    (\<open>transaction_card\<close>) and the page (\<open>render_borrowing\<close>). Dates are millisecond
    timestamps (\<open>int\<close>); \<open>new Date()\<close> is the explicit argument \<open>now\<close>.
  \<^item> \<open>Books\<close> (\<open>BookManagement.tsx\<close>) and \<open>Members\<close>
    (\<open>MemberManagement.tsx\<close>): the entity and state records, every handler, the
    inputs of the add and edit forms as functions on the edited record, the
    client-side filters and the cards.
  \<^item> \<open>Lifecycle\<close> (backend, from the specification): a store of books, members and
    transactions; \<open>attemptBorrow\<close>, \<open>attemptReturn\<close>, \<open>classify\<close>,
    \<open>daysOverdue\<close>, book and member creation; the step relation \<open>lib_step\<close>, the
    reachable stores \<open>lib_reachable\<close> and the invariant \<open>lib_inv\<close>.
  \<^item> \<open>Race\<close> (backend calling layer, from the specification, sections 5 and 9):
    numbered clients that read a snapshot of the store and later commit a borrow,
    interleaved in any order by \<open>race_step\<close>, which is parametrised by the store's
    commit; \<open>rmw_commit\<close> writes back what the snapshot computed, \<open>cas_commit\<close>
    decrements the store's own copy count only if it is still positive.
  \<^item> \<open>Dashboard\<close> (\<open>Dashboard.tsx\<close> and \<open>MockDataProvider.tsx\<close>): the statistics
    record, \<open>fetchStats\<close> with the health result and the four settled responses as
    arguments, \<open>compute_stats\<close>, \<open>handleUseMockData\<close>, the page; and the demo button
    as \<open>demo_step\<close> on the dashboard together with the provider's \<open>isLoading\<close> and
    its scheduled timeouts, whose firing calls the dashboard's handler.
  \<^item> \<open>Connection\<close> (\<open>ConnectionStatus.tsx\<close>): the state, \<open>checkConnection\<close>
    split at its \<open>await\<close>, the three-way banner, and the component over time as the
    step relation \<open>conn_step\<close> (one mount, 30-second ticks, Retry, replies in any
    order and dropped after unmount, unmount with \<open>clearInterval\<close>) with its
    reachable states.
  \<^item> \<open>App\<close> (\<open>App.tsx\<close>): the active tab, the tab buttons, \<open>renderContent\<close> and the
    shell's view composed of the banner, the tab bar and the page.
  \<^item> \<open>Reload\<close> (\<open>BorrowingManagement.tsx\<close> against the lifecycle model): a session
    of the server's store, the borrowing view, the effects sent and the pending reload
    replies; a \<open>Return Book\<close> click runs \<open>handleReturnBook\<close> with the server's
    \<open>attemptReturn\<close> outcome, and each reload's reply reaches \<open>fetch_finish\<close> in any
    order (\<open>session_step\<close>).
  \<^item> This theory: properties that span the client and the backend model.

  \<^bold>\<open>What the lemmas show.\<close>
  The day count of the borrowing view is the specification's
  \<open>max(0, ceil((now - due) / day))\<close>, monotone in time and exact on whole days; a card
  is flagged overdue exactly for late \<open>BORROWED\<close> loans, and for every loan of a
  well-formed store the card agrees with \<open>classify\<close> and \<open>daysOverdue\<close>
  (\<open>card_refines_classify\<close>). Every reachable store conserves copies, keeps ids unique
  and members within the loan ceiling; borrow and return are inverse on the store; the
  specification's scenarios (last copy, ineligible member, double return) hold. The API
  client sends at most two attempts and retries exactly a first 500. The handlers' guards,
  failure paths and reloads, the filters (order-preserving, case-insensitive), and the
  forms are characterised; several findings are proved as theorems: the edit form can
  produce \<open>availableCopies > totalCopies\<close>, a blank search term hides books, a stored
  \<open>OVERDUE\<close> status cannot be returned from the UI, a failed return is silent, and an
  id 0 disables the return button. Over a store satisfying the invariant, the dashboard's
  active-borrowing count is the number of copies lent out (\<open>dashboard_active_lent\<close>).
  With read-modify-write commits, any two borrows of one book by clients that both read
  before either commits lose an update: both loans are recorded, the count drops by
  one; with the conditional decrement every schedule of any number of clients keeps
  copies conserved and loans well formed. The connection banner's reachable states
  record a result with its time, show no check in progress when none is in flight,
  and run the interval only while mounted; the disconnected card without a time is
  shown only in the first render, before any check.
  The demo button never has more than one timeout pending; the tab bar highlights
  exactly the tab whose page is shown. Reload replies delivered in order keep the
  borrowing view in step with the server; out of order, for any two open loans of a
  well-formed store, they leave a returned loan shown as borrowed, and returning it
  again fails without any message. The filters are the specification's search
  (case-insensitive substring on the named fields, order kept).

  \<^bold>\<open>Bounds and fuel.\<close> No fuel is needed: every loop of the client is a list
  traversal, and the only recursion that is not structural (the interceptor's retry) is
  bounded by the \<open>_retry\<close> flag. Timers and concurrent requests are not bounded:
  schedules are arbitrary lists of events and the step relations have unbounded
  reachable sets, proved about by induction. Configuration constants of the backend
  (loan period, open-loan ceiling) are parameters; the examples use the suggested 14
  days and 5 loans.

  \<^bold>\<open>Not modelled.\<close> Rendering details beyond what a card or page shows, the
  static \<open>StartupGuide\<close>, the UI library, date-string parsing and locale formatting,
  \<open>parseInt\<close>'s \<open>NaN\<close>, floating-point rounding of the day quotient (exact for any
  realistic date difference), non-ASCII case mapping, React's state-update batching
  (each handler's updates are applied together, as React applies them after an
  \<open>await\<close>), the remounting of a view when its tab is left and entered again, and
  overlapping reloads of the book and member views (they have the same shape as the
  borrowing view's, which \<open>Reload\<close> models).
\<close>

section \<open>Properties across components\<close>

text \<open>
  C3: for every loan of a well-formed store, the card the borrowing view renders agrees
  with the specification's classification: the overdue warning is shown exactly when
  \<open>classify\<close> says \<open>OVERDUE\<close>, the day count shown is \<open>daysOverdue\<close>, and the
  \<open>Return Book\<close> button is offered exactly for loans not yet returned.
\<close>

theorem card_refines_classify:
  assumes "loans_wf L" and "t \<in> set (lib_loans L)"
  shows "(warning_icon (transaction_card now t) \<longleftrightarrow> classify t now = OVERDUE) \<and>
         days_overdue_note (transaction_card now t) =
           (if classify t now = OVERDUE then Some (daysOverdue t now) else None) \<and>
         (return_button (transaction_card now t) \<longleftrightarrow> classify t now \<noteq> RETURNED)"
proof -
  from assms have st: "status t \<noteq> OVERDUE" and rd: "returnDate t = None \<longleftrightarrow> status t = BORROWED"
    by (auto simp: loans_wf_def)
  show ?thesis
  proof (cases "status t")
    case BORROWED
    with rd show ?thesis
      by (simp add: classify_def daysOverdue_def isOverdue_def getDaysOverdue_max)
  next
    case RETURNED
    with rd obtain d where "returnDate t = Some d" by auto
    with RETURNED show ?thesis by (simp add: classify_def isOverdue_def)
  next
    case OVERDUE
    with st show ?thesis by simp
  qed
qed

text \<open>
  C9: on a well-formed store, the dashboard's count of active transactions (computed
  from the listed loans) is the number of lent copies, the sum over the stored books of
  total minus available copies.
\<close>

theorem dashboard_active_lent:
  assumes "lib_inv cfg L"
  shows "int (activeTransactions (compute_stats br mr (Fulfilled (lib_loans L)) orr)) =
         (\<Sum>bid\<in>dom (lib_books L). totalCopies (the (lib_books L bid)) - BookType.availableCopies (the (lib_books L bid)))"
proof -
  have fin: "finite (dom (lib_books L))" using assms by (simp add: lib_inv_def keys_below_finite)
  have "\<forall>t \<in> set (lib_loans L). status t = BORROWED \<longrightarrow> tx_book.bookId (book t) \<in> dom (lib_books L)"
    using assms by (auto simp: lib_inv_def loans_wf_def)
  then have "activeTransactions (compute_stats br mr (Fulfilled (lib_loans L)) orr) =
      (\<Sum>bid\<in>dom (lib_books L). open_copies L bid)"
    by (simp add: compute_stats_def Let_def open_copies_def length_filter_sum [OF fin])
  also have "int \<dots> = (\<Sum>bid\<in>dom (lib_books L). int (open_copies L bid))"
    by simp
  also have "\<dots> = (\<Sum>bid\<in>dom (lib_books L). totalCopies (the (lib_books L bid)) - BookType.availableCopies (the (lib_books L bid)))"
  proof (rule sum.cong)
    fix bid assume "bid \<in> dom (lib_books L)"
    then obtain b where b: "lib_books L bid = Some b" by auto
    with assms have "BookType.availableCopies b + int (open_copies L bid) = totalCopies b"
      unfolding lib_inv_def copies_conserved_def by blast
    with b show "int (open_copies L bid) = totalCopies (the (lib_books L bid)) - BookType.availableCopies (the (lib_books L bid))"
      by simp
  qed simp
  finally show ?thesis .
qed

section \<open>Witnesses\<close>

theorem card_refines_classify_witness:
  "loans_wf demo_lent \<and>
   new_loan demo_cfg 3 1 (demo_book\<lparr>BookType.bookId := Some 1\<rparr>) 2
     ((demo_member ACTIVE)\<lparr>Member.memberId := Some 2\<rparr>) 0 \<in> set (lib_loans demo_lent) \<and>
   days_overdue_note (transaction_card 1728000000
     (new_loan demo_cfg 3 1 (demo_book\<lparr>BookType.bookId := Some 1\<rparr>) 2
        ((demo_member ACTIVE)\<lparr>Member.memberId := Some 2\<rparr>) 0)) = Some 6"
proof -
  have wf: "loans_wf demo_lent"
    using borrow_lib_inv [OF demo_store_inv demo_borrow] by (simp add: lib_inv_def)
  let ?t = "new_loan demo_cfg 3 1 (demo_book\<lparr>BookType.bookId := Some 1\<rparr>) 2
        ((demo_member ACTIVE)\<lparr>Member.memberId := Some 2\<rparr>) 0"
  have mem: "?t \<in> set (lib_loans demo_lent)" by simp
  have c: "classify ?t 1728000000 = OVERDUE" and d: "daysOverdue ?t 1728000000 = 6"
    by (simp_all add: classify_def daysOverdue_def new_loan_def ceil_div_def)
  from card_refines_classify [OF wf mem, of 1728000000]
  have "days_overdue_note (transaction_card 1728000000 ?t) =
      (if classify ?t 1728000000 = OVERDUE then Some (daysOverdue ?t 1728000000) else None)"
    by blast
  with c d have "days_overdue_note (transaction_card 1728000000 ?t) = Some 6"
    by (simp del: transaction_card_simps)
  with wf mem show ?thesis by blast
qed

theorem dashboard_active_lent_witness:
  "lib_inv demo_cfg demo_lent \<and>
   int (activeTransactions (compute_stats (Rejected []) (Rejected []) (Fulfilled (lib_loans demo_lent))
      (Rejected []))) = 1"
proof -
  have i: "lib_inv demo_cfg demo_lent" by (rule borrow_lib_inv [OF demo_store_inv demo_borrow])
  show ?thesis using i dashboard_active_lent [OF i, of "Rejected []" "Rejected []" "Rejected []"] by simp
qed

end
